theory Spec2Isabelle
  imports Main "HOL-Library.Sublist"
begin

section \<open>Connection broker of the network service mesh: data model\<close>

text \<open>
  The embedding follows \<^verbatim>\<open>plugins/nsmserver/nsmserver_client.go\<close> (the broker
  \<^verbatim>\<open>nsmClientEndpoints\<close> with \<^verbatim>\<open>RequestConnection\<close>, \<^verbatim>\<open>Allocate\<close> and
  \<^verbatim>\<open>ListAndWatch\<close>) and the \<^verbatim>\<open>objectstore\<close> package's \<^verbatim>\<open>dataplaneStore\<close>.

  Go strings are \<^typ>\<open>string\<close>; a Go map is a HOL map; a pointer that the code
  dereferences and that may be \<^verbatim>\<open>nil\<close> is an \<^typ>\<open>'a option\<close>, and dereferencing
  \<^verbatim>\<open>nil\<close> is the error value \<open>NilPointerDereference\<close>. The mutexes are left
  out: every function below is one sequential call. Logging is left out as well, except
  in \<^verbatim>\<open>ListAndWatch\<close>, where the log line is all that a failed send causes.

  What the code asks of the operating system and of the Go library (creating a
  directory, removing a socket file, listening, joining paths, the outcome of a send,
  the order in which \<^verbatim>\<open>range\<close> walks a map) is a parameter of the model, collected in
  an environment record, so that the theorems hold for every behaviour of the
  surroundings. The goroutines that \<^verbatim>\<open>Allocate\<close> starts are part of the model: a runtime
  record holds which of them wait on which channel, and a send on a stop channel
  completes only when one of them waits there.
\<close>

datatype panic = NilPointerDereference

text \<open>The gRPC status codes that \<^verbatim>\<open>RequestConnection\<close> signals, and the error built
  by \<^verbatim>\<open>status.Error(code, message)\<close>. A \<^verbatim>\<open>nil\<close> error is \<open>None\<close>.\<close>

datatype codes = NotFound | AlreadyExists | Aborted

datatype status = Status codes string

text \<open>\<^verbatim>\<open>nsmconnect.ConnectionRequest\<close>: the fields the active code reads.\<close>

record ConnectionRequest =
  RequestId :: string
  NetworkServiceName :: string
  LinuxNamespace :: string

text \<open>Modelled from the spec: the message type \<^verbatim>\<open>nsmconnect.ConnectionParameters\<close> is
  declared in generated code outside the source files at hand. The spec only speaks of
  "empty connection parameters"; the message is modelled by its table of string
  parameters, which the zero value \<^verbatim>\<open>&nsmconnect.ConnectionParameters{}\<close> leaves empty.\<close>

record ConnectionParameters =
  ConnectionParametersMap :: "(string \<times> string) list"

definition emptyConnectionParameters :: ConnectionParameters where
  "emptyConnectionParameters = \<lparr>ConnectionParametersMap = []\<rparr>"

text \<open>\<^verbatim>\<open>nsmconnect.ConnectionReply\<close>; the field \<^verbatim>\<open>ConnectionParameters\<close> is a pointer,
  \<^verbatim>\<open>nil\<close> in every refusing reply.\<close>

record ConnectionReply =
  Accepted :: bool
  ConnectionParameters :: "ConnectionParameters option"
  AdmissionError :: string

text \<open>\<^verbatim>\<open>clientNetworkService\<close>: the per (request id, service) state. The network service
  type \<open>'ns\<close> (\<^verbatim>\<open>netmesh.NetworkService\<close>) is a parameter: the code never looks inside.\<close>

record 'ns clientNetworkService =
  networkService :: "'ns option"
  cnsConnectionParameters :: "ConnectionParameters option"
  isInProgressFlag :: bool

text \<open>\<^verbatim>\<open>pluginapi.Device\<close>, \<^verbatim>\<open>pluginapi.Healthy\<close> and \<^verbatim>\<open>pluginapi.Mount\<close> of the
  kubelet device plugin API.\<close>

record Device =
  ID :: string
  Health :: string

definition Healthy :: string where
  "Healthy = ''Healthy''"

record Mount =
  ContainerPath :: string
  HostPath :: string
  ReadOnly :: bool

text \<open>A \<^verbatim>\<open>chan bool\<close> is known by its identity: the number \<^verbatim>\<open>make\<close> gave it. A channel
  field holds \<open>Some\<close> channel or \<open>None\<close>, the \<^verbatim>\<open>nil\<close> channel of the zero value.\<close>

type_synonym chan = nat

text \<open>\<^verbatim>\<open>nsmSocket\<close>, a value type: the map \<^verbatim>\<open>nsmSockets\<close> holds it by value. The
  \<^verbatim>\<open>device\<close> pointer is never dereferenced by this code.\<close>

record nsmSocket =
  device :: "Device option"
  socketPath :: string
  stopChannel :: "chan option"
  allocated :: bool

text \<open>
  \<^verbatim>\<open>nsmClientEndpoints\<close>, the broker. \<open>objectStore\<close> stands for
  \<^verbatim>\<open>n.objectStore.GetNetworkService\<close> (\<open>None\<close> is the \<^verbatim>\<open>nil\<close> result for an unknown
  name). \<open>nsmClient\<close> stands for the clientset's
  \<^verbatim>\<open>NetworkserviceV1().NetworkServiceEndpoints(namespace).List(options)\<close>: given the
  namespace and the service name of the label selector it answers with the error's text
  (\<open>Inl\<close>) or with the items of the endpoint list (\<open>Inr\<close>). The endpoint type \<open>'ep\<close> is a
  parameter. In \<open>clientConnections\<close> the first key is the request id, the second the
  network service name, and the value a pointer (\<open>None\<close> is \<^verbatim>\<open>nil\<close>); a \<^verbatim>\<open>nil\<close> inner map
  reads like an empty one.
\<close>

record ('ns, 'ep) nsmClientEndpoints =
  nsmSockets :: "string \<rightharpoonup> nsmSocket"
  objectStore :: "string \<rightharpoonup> 'ns"
  clientConnections :: "string \<rightharpoonup> (string \<rightharpoonup> 'ns clientNetworkService option)"
  nsmClient :: "string \<Rightarrow> string \<Rightarrow> string + 'ep list"
  namespace :: string

section \<open>RequestConnection\<close>

text \<open>\<^verbatim>\<open>getNetworkServiceEndpoint\<close>: the list call; an error is handed on, otherwise the
  items are returned.\<close>

definition getNetworkServiceEndpoint ::
  "(string \<Rightarrow> string \<Rightarrow> string + 'ep list) \<Rightarrow> string \<Rightarrow> string \<Rightarrow> string + 'ep list" where
  "getNetworkServiceEndpoint client networkService_name ns_namespace =
     (case client ns_namespace networkService_name of
        Inl err \<Rightarrow> Inl err
      | Inr items \<Rightarrow> Inr items)"

text \<open>\<^verbatim>\<open>isInProgress\<close> reads the flag through the pointer; on \<^verbatim>\<open>nil\<close> Go panics.\<close>

definition isInProgress :: "'ns clientNetworkService option \<Rightarrow> panic + bool" where
  "isInProgress p = (case p of None \<Rightarrow> Inl NilPointerDereference
                              | Some c \<Rightarrow> Inr (isInProgressFlag c))"

text \<open>
  \<^verbatim>\<open>RequestConnection\<close>, the active code path (the pipeline in the block comment is not
  code). The result is the broker after the call, together with either the panic or
  the pair of reply and error that the handler returns. The request pointer is never
  \<^verbatim>\<open>nil\<close>: the gRPC handler allocates it.
\<close>

definition RequestConnection ::
  "('ns, 'ep) nsmClientEndpoints \<Rightarrow> ConnectionRequest \<Rightarrow>
     ('ns, 'ep) nsmClientEndpoints \<times> (panic + ConnectionReply \<times> status option)" where
  "RequestConnection n cr =
    (case objectStore n (NetworkServiceName cr) of
       None \<Rightarrow>
         (n, Inr (\<lparr>Accepted = False, ConnectionParameters = None,
                   AdmissionError = ''requested Network Service '' @ RequestId cr @ '' does not exist''\<rparr>,
                  Some (Status NotFound ''requested network service not found'')))
     | Some ns \<Rightarrow>
        (case (case clientConnections n (RequestId cr) of
                 None \<Rightarrow> None
               | Some services \<Rightarrow> services (NetworkServiceName cr)) of
           Some p \<Rightarrow>
             (case isInProgress p of
                Inl e \<Rightarrow> (n, Inl e)
              | Inr True \<Rightarrow>
                 (n, Inr (\<lparr>Accepted = False, ConnectionParameters = None,
                           AdmissionError = ''dataplane for requested Network Service '' @ RequestId cr
                                            @ '' is still being programmed, retry''\<rparr>,
                          Some (Status AlreadyExists
                                  ''dataplane for requested network service is being programmed, retry'')))
              | Inr False \<Rightarrow>
                 (n, Inr (\<lparr>Accepted = True, ConnectionParameters = Some emptyConnectionParameters,
                           AdmissionError = []\<rparr>, None)))
         | None \<Rightarrow>
             (case getNetworkServiceEndpoint (nsmClient n) (NetworkServiceName cr) (namespace n) of
                Inl err \<Rightarrow>
                  (n, Inr (\<lparr>Accepted = False, ConnectionParameters = None,
                            AdmissionError = ''connection request '' @ RequestId cr
                              @ '' failed to get a list of endpoints for requested Network Service ''
                              @ NetworkServiceName cr @ '' with error: '' @ err\<rparr>,
                           Some (Status Aborted
                                   ''failed to get a list of endpoints for requested Network Service'')))
              | Inr endpointList \<Rightarrow>
                  if length endpointList = 0 then
                    (n, Inr (\<lparr>Accepted = False, ConnectionParameters = None,
                              AdmissionError = ''connection request '' @ RequestId cr
                                @ '' failed no endpoints were found for requested Network Service ''
                                @ NetworkServiceName cr\<rparr>,
                             Some (Status NotFound
                                     ''failed no endpoints were found for requested Network Service'')))
                  else
                    (n, Inr (\<lparr>Accepted = True, ConnectionParameters = Some emptyConnectionParameters,
                              AdmissionError = []\<rparr>, None)))))"

text \<open>\<^verbatim>\<open>cleanConnectionRequest\<close>: deletes the whole entry of a request id. It is the only
  function that writes \<open>clientConnections\<close>.\<close>

definition cleanConnectionRequest ::
  "string \<Rightarrow> ('ns, 'ep) nsmClientEndpoints \<Rightarrow> ('ns, 'ep) nsmClientEndpoints" where
  "cleanConnectionRequest requestID n =
     n\<lparr>clientConnections := (clientConnections n)(requestID := None)\<rparr>"

section \<open>Allocate and the client servers\<close>

text \<open>The messages of the device plugin API that \<^verbatim>\<open>Allocate\<close> reads and writes.\<close>

record ContainerAllocateRequest =
  DevicesIDs :: "string list"

record AllocateRequest =
  ContainerRequests :: "ContainerAllocateRequest list"

record ContainerAllocateResponse =
  Mounts :: "Mount list"

record AllocateResponse =
  ContainerResponses :: "ContainerAllocateResponse list"

text \<open>
  The surroundings of \<^verbatim>\<open>Allocate\<close> and \<^verbatim>\<open>startClientServer\<close>. \<open>SocketBaseDir\<close> and
  \<open>ServerSock\<close> are constants of the package that are declared in another file;
  \<open>pathJoin\<close> is Go's \<^verbatim>\<open>path.Join\<close> on two elements. The other fields say for which path
  a call to the operating system returns no error: \<^verbatim>\<open>os.MkdirAll\<close>,
  \<^verbatim>\<open>tools.SocketCleanup\<close>, \<^verbatim>\<open>net.Listen\<close> inside \<^verbatim>\<open>newCustomListener\<close>, and
  \<^verbatim>\<open>tools.SocketOperationCheck\<close>.
\<close>

record allocEnv =
  SocketBaseDir :: string
  ServerSock :: string
  pathJoin :: "string \<Rightarrow> string \<Rightarrow> string"
  mkdirAll :: "string \<Rightarrow> bool"
  socketCleanup :: "string \<Rightarrow> bool"
  listenUnix :: "string \<Rightarrow> bool"
  socketOperationCheck :: "string \<Rightarrow> bool"

text \<open>
  What the Go runtime holds besides the broker:
  \<^item> \<open>nextChan\<close>, the number of the next channel that \<^verbatim>\<open>make(chan bool)\<close> hands out;
  \<^item> \<open>closed\<close>, the channels closed so far;
  \<^item> \<open>started\<close>, the device ids for which \<^verbatim>\<open>go startClientServer(id, n)\<close> was issued;
  \<^item> \<open>serving\<close>, device id and listen endpoint of every gRPC server for which
    \<^verbatim>\<open>go grpcServer.Serve(sock)\<close> was issued; nothing ever leaves this list, since the
    code has no call that stops a gRPC server;
  \<^item> \<open>waiting\<close>, the copies \<^verbatim>\<open>client\<close> held by the server goroutines that wait for the
    stop signal in the \<^verbatim>\<open>select\<close>;
  \<^item> \<open>finished\<close>, the copies \<^verbatim>\<open>client\<close> with which server goroutines have returned.
\<close>

record runtime =
  nextChan :: chan
  closed :: "chan list"
  started :: "string list"
  serving :: "(string \<times> string) list"
  waiting :: "nsmSocket list"
  finished :: "nsmSocket list"

text \<open>A call either comes back with a value or stays blocked in a channel operation.\<close>

datatype 'a outcome = Blocked | Returned (result: 'a)

text \<open>The zero value of \<^verbatim>\<open>nsmSocket\<close>, which reading a map gives for a missing key.\<close>

definition zeroSocket :: nsmSocket where
  "zeroSocket = \<lparr>device = None, socketPath = [], stopChannel = None, allocated = False\<rparr>"

text \<open>
  \<^verbatim>\<open>startClientServer\<close>, from its first line to the \<^verbatim>\<open>select\<close>. The goroutine works on
  \<^verbatim>\<open>client\<close>, a copy of the map value: \<^verbatim>\<open>client.allocated = false\<close> changes the copy and
  the broker is only read. When the stale socket cannot be removed or the listener
  cannot be made, the goroutine returns. Otherwise the gRPC server is set to serve in
  a goroutine of its own; when the readiness probe fails the goroutine returns and
  leaves that server serving; when it succeeds the goroutine waits for the stop signal
  (on a \<^verbatim>\<open>nil\<close> channel it waits for ever and no signal can reach it). The goroutine is
  taken to run up to this point as soon as it is started.
\<close>

definition startClientServer ::
  "allocEnv \<Rightarrow> string \<Rightarrow> ('ns, 'ep) nsmClientEndpoints \<Rightarrow> runtime \<Rightarrow> runtime" where
  "startClientServer env devID endpoints rt =
     (let client = (case nsmSockets endpoints devID of Some s \<Rightarrow> s | None \<Rightarrow> zeroSocket);
          listenEndpoint = socketPath client
      in if \<not> socketCleanup env listenEndpoint
         then rt\<lparr>finished := finished rt @ [client\<lparr>allocated := False\<rparr>]\<rparr>
         else if \<not> listenUnix env listenEndpoint
         then rt\<lparr>finished := finished rt @ [client\<lparr>allocated := False\<rparr>]\<rparr>
         else
           (let rt1 = rt\<lparr>serving := serving rt @ [(devID, listenEndpoint)]\<rparr>
            in if \<not> socketOperationCheck env listenEndpoint
               then rt1\<lparr>finished := finished rt1 @ [client\<lparr>allocated := False\<rparr>]\<rparr>
               else rt1\<lparr>waiting := waiting rt1 @ [client]\<rparr>))"

text \<open>
  The stop rendezvous: \<^verbatim>\<open>stopChannel <- true\<close>, \<^verbatim>\<open><-stopChannel\<close> and
  \<^verbatim>\<open>close(stopChannel)\<close> in \<^verbatim>\<open>Allocate\<close>, together with the end of the server goroutine
  that waits on this channel: it takes the signal, clears \<^verbatim>\<open>allocated\<close> in its copy,
  sends the confirmation and returns. Its gRPC server is not stopped: \<open>serving\<close> stays
  as it is. Without a goroutine waiting on the channel, and on the \<^verbatim>\<open>nil\<close> channel, the
  send never completes. (A closed channel is never met: the entry whose channel was
  closed is overwritten right after.)
\<close>

definition stopRendezvous :: "chan option \<Rightarrow> runtime \<Rightarrow> runtime outcome" where
  "stopRendezvous ch rt =
     (case ch of
        None \<Rightarrow> Blocked
      | Some c \<Rightarrow>
          (case find (\<lambda>client. stopChannel client = Some c) (waiting rt) of
             None \<Rightarrow> Blocked
           | Some client \<Rightarrow>
               Returned (rt\<lparr>waiting := remove1 client (waiting rt),
                            finished := finished rt @ [client\<lparr>allocated := False\<rparr>],
                            closed := closed rt @ [c]\<rparr>)))"

text \<open>The mount and the socket descriptor that the loop body builds for a device id.\<close>

definition mountFor :: "allocEnv \<Rightarrow> string \<Rightarrow> Mount" where
  "mountFor env devID =
     \<lparr>ContainerPath = SocketBaseDir env,
      HostPath = pathJoin env (SocketBaseDir env) (''nsm-'' @ devID),
      ReadOnly = False\<rparr>"

definition socketFor :: "allocEnv \<Rightarrow> string \<Rightarrow> chan \<Rightarrow> nsmSocket" where
  "socketFor env devID c =
     \<lparr>device = Some \<lparr>ID = devID, Health = Healthy\<rparr>,
      socketPath = pathJoin env (HostPath (mountFor env devID)) (ServerSock env),
      stopChannel = Some c,
      allocated = True\<rparr>"

text \<open>
  The body of the inner loop, for one device id: nothing is done for an id that is no
  key of \<^verbatim>\<open>nsmSockets\<close>; otherwise, when the entry says allocated, the call goes through
  the stop rendezvous on the entry's channel; then the entry is overwritten with a
  descriptor holding a new channel and the flag set; and only when the host directory
  could be made is the server goroutine started and the mount appended.
\<close>

definition Allocate_id ::
  "allocEnv \<Rightarrow> string \<Rightarrow> ('ns, 'ep) nsmClientEndpoints \<times> runtime \<times> Mount list \<Rightarrow>
     (('ns, 'ep) nsmClientEndpoints \<times> runtime \<times> Mount list) outcome" where
  "Allocate_id env devID acc =
     (case acc of (n, rt, mounts) \<Rightarrow>
       (case nsmSockets n devID of
          None \<Rightarrow> Returned (n, rt, mounts)
        | Some s \<Rightarrow>
            (case (if allocated s then stopRendezvous (stopChannel s) rt else Returned rt) of
               Blocked \<Rightarrow> Blocked
             | Returned rt1 \<Rightarrow>
                 (let mount = mountFor env devID;
                      n' = n\<lparr>nsmSockets := (nsmSockets n)(devID \<mapsto> socketFor env devID (nextChan rt1))\<rparr>;
                      rt2 = rt1\<lparr>nextChan := Suc (nextChan rt1)\<rparr>
                  in if mkdirAll env (HostPath mount)
                     then Returned (n', startClientServer env devID n' (rt2\<lparr>started := started rt2 @ [devID]\<rparr>),
                                    mounts @ [mount])
                     else Returned (n', rt2, mounts)))))"

text \<open>The inner loop over \<^verbatim>\<open>req.DevicesIDs\<close> and the outer loop over
  \<^verbatim>\<open>reqs.ContainerRequests\<close>; \<^verbatim>\<open>mounts\<close> starts empty for every container request.\<close>

fun Allocate_ids ::
  "allocEnv \<Rightarrow> string list \<Rightarrow> ('ns, 'ep) nsmClientEndpoints \<times> runtime \<times> Mount list \<Rightarrow>
     (('ns, 'ep) nsmClientEndpoints \<times> runtime \<times> Mount list) outcome" where
  "Allocate_ids env [] acc = Returned acc"
| "Allocate_ids env (devID # ids) acc =
     (case Allocate_id env devID acc of
        Blocked \<Rightarrow> Blocked
      | Returned acc' \<Rightarrow> Allocate_ids env ids acc')"

fun Allocate_requests ::
  "allocEnv \<Rightarrow> ContainerAllocateRequest list \<Rightarrow>
     ('ns, 'ep) nsmClientEndpoints \<times> runtime \<times> ContainerAllocateResponse list \<Rightarrow>
     (('ns, 'ep) nsmClientEndpoints \<times> runtime \<times> ContainerAllocateResponse list) outcome" where
  "Allocate_requests env [] acc = Returned acc"
| "Allocate_requests env (req # reqs) (n, rt, responses) =
     (case Allocate_ids env (DevicesIDs req) (n, rt, []) of
        Blocked \<Rightarrow> Blocked
      | Returned (n', rt', mounts) \<Rightarrow>
          Allocate_requests env reqs (n', rt', responses @ [\<lparr>Mounts = mounts\<rparr>]))"

text \<open>\<^verbatim>\<open>Allocate\<close>: the broker and the runtime after the call, the response and the
  error, which is always \<^verbatim>\<open>nil\<close>.\<close>

definition Allocate ::
  "allocEnv \<Rightarrow> ('ns, 'ep) nsmClientEndpoints \<Rightarrow> runtime \<Rightarrow> AllocateRequest \<Rightarrow>
     (('ns, 'ep) nsmClientEndpoints \<times> runtime \<times> AllocateResponse \<times> string option) outcome" where
  "Allocate env n rt reqs =
     (case Allocate_requests env (ContainerRequests reqs) (n, rt, []) of
        Blocked \<Rightarrow> Blocked
      | Returned (n', rt', responses) \<Rightarrow>
          Returned (n', rt', \<lparr>ContainerResponses = responses\<rparr>, None))"

section \<open>ListAndWatch\<close>

text \<open>
  The response pushed to the watcher and the trace of what the loop does: a send with
  its outcome (\<open>None\<close> is the \<^verbatim>\<open>nil\<close> error), an error line in the log, and a sleep with
  its length in seconds.
\<close>

record ListAndWatchResponse =
  Devices :: "Device option list"

datatype watchEvent = Send ListAndWatchResponse "string option" | Errorf string | Sleep nat

text \<open>
  The surroundings of the loop at its \<open>k\<close>-th round: the broker as it is then (other
  calls may have changed the device table), the order in which \<^verbatim>\<open>range\<close> walks the keys
  of \<^verbatim>\<open>nsmSockets\<close>, and the outcome of \<^verbatim>\<open>s.Send\<close>.
\<close>

record ('ns, 'ep) watchEnv =
  brokerAt :: "nat \<Rightarrow> ('ns, 'ep) nsmClientEndpoints"
  rangeOrder :: "nat \<Rightarrow> string list"
  sendError :: "nat \<Rightarrow> ListAndWatchResponse \<Rightarrow> string option"

text \<open>\<^verbatim>\<open>for _, v := range m\<close>: the values of the map, under the keys in the order in which
  the runtime walks them; a key that the map does not hold yields nothing.\<close>

definition rangeValues :: "string list \<Rightarrow> (string \<rightharpoonup> 'v) \<Rightarrow> 'v list" where
  "rangeValues order m = List.map_filter m order"

text \<open>
  One round of the loop, from the round number and the trace so far: the devices of
  the table are collected, the response is sent, a failed send is logged, and the loop
  sleeps five seconds. Neither branch leaves the loop.
\<close>

definition ListAndWatch_iteration ::
  "('ns, 'ep) watchEnv \<Rightarrow> nat \<times> watchEvent list \<Rightarrow> nat \<times> watchEvent list" where
  "ListAndWatch_iteration env st =
     (case st of (k, trace) \<Rightarrow>
        (let resp = \<lparr>Devices = map device (rangeValues (rangeOrder env k) (nsmSockets (brokerAt env k)))\<rparr>
         in case sendError env k resp of
              Some err \<Rightarrow>
                (Suc k, trace @ [Send resp (Some err),
                                 Errorf (''Failed to send response to kubelet: '' @ err @ [CHR 0x0A]),
                                 Sleep 5])
            | None \<Rightarrow> (Suc k, trace @ [Send resp None, Sleep 5])))"

text \<open>\<^verbatim>\<open>ListAndWatch\<close>: the \<^verbatim>\<open>for\<close> loop without condition. A result would be the trace
  and the returned error; \<open>None\<close> says that the call does not return.\<close>

partial_function (option) ListAndWatch ::
  "('ns, 'ep) watchEnv \<Rightarrow> nat \<times> watchEvent list \<Rightarrow> (watchEvent list \<times> string option) option" where
  "ListAndWatch env st = ListAndWatch env (ListAndWatch_iteration env st)"

section \<open>Provider registry: the dataplane store\<close>

text \<open>
  \<^verbatim>\<open>Dataplane\<close> and \<^verbatim>\<open>dataplaneStore\<close> of the \<^verbatim>\<open>objectstore\<close> package. The store maps a
  registered name to a descriptor; \<^verbatim>\<open>newDataplaneStore\<close> makes the empty map. The store's
  lock is held for the whole of each operation, so each is one atomic function here.
\<close>

record Dataplane =
  RegisteredName :: string
  SocketLocation :: string
  Parameters :: "string \<rightharpoonup> string"

record dataplaneStore =
  dataplanes :: "string \<rightharpoonup> Dataplane"

definition newDataplaneStore :: dataplaneStore where
  "newDataplaneStore = \<lparr>dataplanes = Map.empty\<rparr>"

text \<open>\<^verbatim>\<open>Add\<close> reads \<^verbatim>\<open>dp.RegisteredName\<close> through the pointer it is given (a panic on
  \<^verbatim>\<open>nil\<close>) and stores the descriptor only when the name has no entry.\<close>

definition Add :: "dataplaneStore \<Rightarrow> Dataplane option \<Rightarrow> panic + dataplaneStore" where
  "Add d dp_ptr =
     (case dp_ptr of
        None \<Rightarrow> Inl NilPointerDereference
      | Some dp \<Rightarrow>
          (case dataplanes d (RegisteredName dp) of
             None \<Rightarrow> Inr (d\<lparr>dataplanes := (dataplanes d)(RegisteredName dp \<mapsto> dp)\<rparr>)
           | Some _ \<Rightarrow> Inr d))"

text \<open>\<^verbatim>\<open>Get\<close>: the descriptor, or \<^verbatim>\<open>nil\<close> (\<open>None\<close>) for a name without entry.\<close>

definition Get :: "dataplaneStore \<Rightarrow> string \<Rightarrow> Dataplane option" where
  "Get d registeredName =
     (case dataplanes d registeredName of
        None \<Rightarrow> None
      | Some dp \<Rightarrow> Some dp)"

text \<open>\<^verbatim>\<open>Delete\<close>: removes the entry when there is one.\<close>

definition Delete :: "dataplaneStore \<Rightarrow> string \<Rightarrow> dataplaneStore" where
  "Delete d registeredName =
     (case dataplanes d registeredName of
        Some _ \<Rightarrow> d\<lparr>dataplanes := (dataplanes d)(registeredName := None)\<rparr>
      | None \<Rightarrow> d)"

section \<open>Auxiliary notions for the statements\<close>

text \<open>The mounts that a list of device ids yields against the device table of \<open>n\<close>, and
  the set of all device ids of a batch.\<close>

definition prepared :: "allocEnv \<Rightarrow> ('ns, 'ep) nsmClientEndpoints \<Rightarrow> string list \<Rightarrow> Mount list" where
  "prepared env n ids =
     map (mountFor env)
       (filter (\<lambda>i. i \<in> dom (nsmSockets n) \<and> mkdirAll env (HostPath (mountFor env i))) ids)"

definition requested :: "ContainerAllocateRequest list \<Rightarrow> string set" where
  "requested reqs = (\<Union>req \<in> set reqs. set (DevicesIDs req))"

text \<open>
  \<open>serversWaiting n rt ids\<close>: every device id of \<open>ids\<close> whose entry says allocated has a
  channel on which a server goroutine waits. \<open>ownChannels n ids\<close>: different device ids
  of \<open>ids\<close> with allocated entries have different channels.
\<close>

definition serversWaiting :: "('ns, 'ep) nsmClientEndpoints \<Rightarrow> runtime \<Rightarrow> string list \<Rightarrow> bool" where
  "serversWaiting n rt ids =
     (\<forall>i s. i \<in> set ids \<and> nsmSockets n i = Some s \<and> allocated s \<longrightarrow>
        stopChannel s \<noteq> None \<and> stopChannel s \<in> set (map stopChannel (waiting rt)))"

definition ownChannels :: "('ns, 'ep) nsmClientEndpoints \<Rightarrow> string list \<Rightarrow> bool" where
  "ownChannels n ids =
     (\<forall>i j s t. i \<in> set ids \<and> j \<in> set ids \<and> i \<noteq> j \<and> nsmSockets n i = Some s \<and> nsmSockets n j = Some t
        \<and> allocated s \<and> allocated t \<longrightarrow> stopChannel s \<noteq> stopChannel t)"

section \<open>Scenarios\<close>

text \<open>Concrete brokers and requests, on which the theorems below are exercised.\<close>

definition emptyRegistryBroker :: "(string, string) nsmClientEndpoints" where
  "emptyRegistryBroker =
     \<lparr>nsmSockets = Map.empty, objectStore = Map.empty, clientConnections = Map.empty,
      nsmClient = (\<lambda>_ _. Inr []), namespace = ''default''\<rparr>"

definition goldRequest :: ConnectionRequest where
  "goldRequest = \<lparr>RequestId = ''w1'', NetworkServiceName = ''gold-network'', LinuxNamespace = ''ns-4026531956''\<rparr>"

definition goldBroker ::
  "(string \<Rightarrow> string \<Rightarrow> string + string list) \<Rightarrow>
   (string \<rightharpoonup> (string \<rightharpoonup> string clientNetworkService option)) \<Rightarrow>
   (string, string) nsmClientEndpoints" where
  "goldBroker lister conns =
     \<lparr>nsmSockets = Map.empty, objectStore = [''gold-network'' \<mapsto> ''gold-network''],
      clientConnections = conns, nsmClient = lister, namespace = ''default''\<rparr>"

definition goldEntry :: "bool \<Rightarrow> string \<rightharpoonup> (string \<rightharpoonup> string clientNetworkService option)" where
  "goldEntry flag =
     [''w1'' \<mapsto> [''gold-network'' \<mapsto>
        Some \<lparr>networkService = Some ''gold-network'', cnsConnectionParameters = Some emptyConnectionParameters,
              isInProgressFlag = flag\<rparr>]]"

definition vppDataplane :: "string \<Rightarrow> Dataplane" where
  "vppDataplane sock = \<lparr>RegisteredName = ''vpp'', SocketLocation = sock, Parameters = Map.empty\<rparr>"

text \<open>An environment with example values for the two constants and a join with a
  slash; what the operating system answers is left open.\<close>

definition exampleEnv :: "(string \<Rightarrow> bool) \<Rightarrow> (string \<Rightarrow> bool) \<Rightarrow> allocEnv" where
  "exampleEnv mkdir cleanup =
     \<lparr>SocketBaseDir = ''/var/lib/networkservicemesh'', ServerSock = ''nsm.client.sock'',
      pathJoin = (\<lambda>dir name. dir @ ''/'' @ name), mkdirAll = mkdir,
      socketCleanup = cleanup, listenUnix = (\<lambda>_. True), socketOperationCheck = (\<lambda>_. True)\<rparr>"

definition always :: "string \<Rightarrow> bool" where
  "always p = True"

definition never :: "string \<Rightarrow> bool" where
  "never p = False"

definition mkdirExceptDevB :: "string \<Rightarrow> bool" where
  "mkdirExceptDevB p = (p \<noteq> ''/var/lib/networkservicemesh/nsm-dev-B'')"

text \<open>A runtime that has made \<open>k\<close> channels and runs the given waiting servers.\<close>

definition freshRuntime :: "nat \<Rightarrow> nsmSocket list \<Rightarrow> runtime" where
  "freshRuntime k servers =
     \<lparr>nextChan = k, closed = [], started = [], serving = [], waiting = servers, finished = []\<rparr>"

text \<open>The descriptor of \<open>dev-A\<close> after an allocation that made channel \<open>0\<close>; a device
  table in which \<open>dev-A\<close> and \<open>dev-B\<close> are known and were never allocated; and the table
  with this allocated \<open>dev-A\<close>.\<close>

definition devA_socket :: nsmSocket where
  "devA_socket =
     \<lparr>device = Some \<lparr>ID = ''dev-A'', Health = Healthy\<rparr>,
      socketPath = ''/var/lib/networkservicemesh/nsm-dev-A/nsm.client.sock'',
      stopChannel = Some 0, allocated = True\<rparr>"

definition idleSocket :: "string \<Rightarrow> nsmSocket" where
  "idleSocket devID =
     \<lparr>device = Some \<lparr>ID = devID, Health = Healthy\<rparr>, socketPath = [], stopChannel = None,
      allocated = False\<rparr>"

definition poolBroker :: "(string, string) nsmClientEndpoints" where
  "poolBroker =
     emptyRegistryBroker\<lparr>nsmSockets :=
       [''dev-A'' \<mapsto> idleSocket ''dev-A'', ''dev-B'' \<mapsto> idleSocket ''dev-B'']\<rparr>"

definition deviceBroker :: "(string, string) nsmClientEndpoints" where
  "deviceBroker = poolBroker\<lparr>nsmSockets := (nsmSockets poolBroker)(''dev-A'' \<mapsto> devA_socket)\<rparr>"

text \<open>The runtime after that allocation when the server of \<open>dev-A\<close> came up and waits,
  and the runtime after it when the stale socket could not be removed and the server
  goroutine returned.\<close>

definition servedRuntime :: runtime where
  "servedRuntime =
     \<lparr>nextChan = 1, closed = [], started = [''dev-A''],
      serving = [(''dev-A'', ''/var/lib/networkservicemesh/nsm-dev-A/nsm.client.sock'')],
      waiting = [devA_socket], finished = []\<rparr>"

definition unservedRuntime :: runtime where
  "unservedRuntime =
     \<lparr>nextChan = 1, closed = [], started = [''dev-A''], serving = [], waiting = [],
      finished = [devA_socket\<lparr>allocated := False\<rparr>]\<rparr>"

definition devA_request :: AllocateRequest where
  "devA_request = \<lparr>ContainerRequests = [\<lparr>DevicesIDs = [''dev-A'']\<rparr>]\<rparr>"

definition devB_twice_request :: AllocateRequest where
  "devB_twice_request = \<lparr>ContainerRequests = [\<lparr>DevicesIDs = [''dev-B'', ''dev-B'']\<rparr>]\<rparr>"

definition mixed_request :: AllocateRequest where
  "mixed_request = \<lparr>ContainerRequests = [\<lparr>DevicesIDs = [''dev-A'', ''dev-B'']\<rparr>, \<lparr>DevicesIDs = [''dev-C'']\<rparr>]\<rparr>"

definition brokenStream :: "(string, string) watchEnv" where
  "brokenStream = \<lparr>brokerAt = (\<lambda>_. deviceBroker), rangeOrder = (\<lambda>_. [''dev-B'', ''dev-A'']),
                   sendError = (\<lambda>_ _. Some ''EOF'')\<rparr>"

section \<open>Theorems\<close>

subsection \<open>RequestConnection\<close>

text \<open>
  C1. A request for a network service that the registry does not know is refused:
  the reply has \<open>Accepted = False\<close> and the "does not exist" admission error, the error
  carries the code \<open>NotFound\<close>, and the broker is the one before the call, so that no
  entry is recorded in \<open>clientConnections\<close>.
\<close>

theorem C1_unknown_service_refused:
  assumes "objectStore n (NetworkServiceName cr) = None"
  shows "RequestConnection n cr =
           (n, Inr (\<lparr>Accepted = False, ConnectionParameters = None,
                     AdmissionError = ''requested Network Service '' @ RequestId cr @ '' does not exist''\<rparr>,
                    Some (Status NotFound ''requested network service not found'')))
         \<and> clientConnections (fst (RequestConnection n cr)) = clientConnections n"
  using assms by (simp add: RequestConnection_def)

text \<open>The scenario of the empty registry.\<close>

theorem C1_witness:
  "objectStore emptyRegistryBroker (NetworkServiceName goldRequest) = None
   \<and> RequestConnection emptyRegistryBroker goldRequest =
       (emptyRegistryBroker,
        Inr (\<lparr>Accepted = False, ConnectionParameters = None,
              AdmissionError = ''requested Network Service w1 does not exist''\<rparr>,
             Some (Status NotFound ''requested network service not found'')))"
  using C1_unknown_service_refused [of emptyRegistryBroker goldRequest]
  by (simp add: emptyRegistryBroker_def goldRequest_def)

text \<open>
  C2. A new request (no entry for the request id and the service) for a registered
  service: when the endpoint list call fails the reply is refused with the code
  \<open>Aborted\<close>; when it gives no endpoint the reply is refused with the code \<open>NotFound\<close>
  and a message that is not the one of the unknown service, whatever the request;
  when it gives at least one endpoint the reply is accepted with empty connection
  parameters. In all three the broker is returned as it was, so nothing is recorded.
\<close>

theorem C2_new_request:
  assumes "objectStore n (NetworkServiceName cr) = Some ns"
    and "\<forall>services. clientConnections n (RequestId cr) = Some services
                     \<longrightarrow> services (NetworkServiceName cr) = None"
  shows "(\<forall>err. nsmClient n (namespace n) (NetworkServiceName cr) = Inl err \<longrightarrow>
            RequestConnection n cr =
              (n, Inr (\<lparr>Accepted = False, ConnectionParameters = None,
                        AdmissionError = ''connection request '' @ RequestId cr
                          @ '' failed to get a list of endpoints for requested Network Service ''
                          @ NetworkServiceName cr @ '' with error: '' @ err\<rparr>,
                       Some (Status Aborted
                               ''failed to get a list of endpoints for requested Network Service''))))
       \<and> (nsmClient n (namespace n) (NetworkServiceName cr) = Inr [] \<longrightarrow>
            RequestConnection n cr =
              (n, Inr (\<lparr>Accepted = False, ConnectionParameters = None,
                        AdmissionError = ''connection request '' @ RequestId cr
                          @ '' failed no endpoints were found for requested Network Service ''
                          @ NetworkServiceName cr\<rparr>,
                       Some (Status NotFound
                               ''failed no endpoints were found for requested Network Service'')))
            \<and> (\<forall>cr'. AdmissionError (fst (projr (snd (RequestConnection n cr))))
                        \<noteq> ''requested Network Service '' @ RequestId cr' @ '' does not exist'')
            \<and> snd (projr (snd (RequestConnection n cr)))
                 \<noteq> Some (Status NotFound ''requested network service not found''))
       \<and> (\<forall>endpointList. nsmClient n (namespace n) (NetworkServiceName cr) = Inr endpointList
              \<and> endpointList \<noteq> [] \<longrightarrow>
            RequestConnection n cr =
              (n, Inr (\<lparr>Accepted = True, ConnectionParameters = Some emptyConnectionParameters,
                        AdmissionError = []\<rparr>, None)))"
proof -
  have existing: "(case clientConnections n (RequestId cr) of None \<Rightarrow> None
                   | Some services \<Rightarrow> services (NetworkServiceName cr)) = None"
    using assms(2) by (simp split: option.split)
  show ?thesis
    using assms(1) existing
    by (simp add: RequestConnection_def getNetworkServiceEndpoint_def)
qed

text \<open>The three outcomes, on a broker that knows \<open>gold-network\<close> and holds no entry.\<close>

theorem C2_witness:
  "RequestConnection (goldBroker (\<lambda>_ _. Inl ''timeout'') Map.empty) goldRequest =
     (goldBroker (\<lambda>_ _. Inl ''timeout'') Map.empty,
      Inr (\<lparr>Accepted = False, ConnectionParameters = None,
            AdmissionError = ''connection request w1 failed to get a list of endpoints for requested Network Service gold-network with error: timeout''\<rparr>,
           Some (Status Aborted ''failed to get a list of endpoints for requested Network Service'')))
   \<and> RequestConnection (goldBroker (\<lambda>_ _. Inr []) Map.empty) goldRequest =
     (goldBroker (\<lambda>_ _. Inr []) Map.empty,
      Inr (\<lparr>Accepted = False, ConnectionParameters = None,
            AdmissionError = ''connection request w1 failed no endpoints were found for requested Network Service gold-network''\<rparr>,
           Some (Status NotFound ''failed no endpoints were found for requested Network Service'')))
   \<and> RequestConnection (goldBroker (\<lambda>_ _. Inr [''nse-1'']) Map.empty) goldRequest =
     (goldBroker (\<lambda>_ _. Inr [''nse-1'']) Map.empty,
      Inr (\<lparr>Accepted = True, ConnectionParameters = Some emptyConnectionParameters,
            AdmissionError = []\<rparr>, None))"
proof -
  have registered: "objectStore (goldBroker l Map.empty) (NetworkServiceName goldRequest) = Some ''gold-network''" for l
    by (simp add: goldBroker_def goldRequest_def)
  have fresh: "\<forall>services. clientConnections (goldBroker l Map.empty) (RequestId goldRequest) = Some services
                 \<longrightarrow> services (NetworkServiceName goldRequest) = None" for l
    by (simp add: goldBroker_def)
  note new_request = C2_new_request [OF registered fresh]
  have "RequestConnection (goldBroker (\<lambda>_ _. Inl ''timeout'') Map.empty) goldRequest =
     (goldBroker (\<lambda>_ _. Inl ''timeout'') Map.empty,
      Inr (\<lparr>Accepted = False, ConnectionParameters = None,
            AdmissionError = ''connection request w1 failed to get a list of endpoints for requested Network Service gold-network with error: timeout''\<rparr>,
           Some (Status Aborted ''failed to get a list of endpoints for requested Network Service'')))"
    using new_request [of "\<lambda>_ _. Inl ''timeout''", THEN conjunct1, rule_format, of "''timeout''"]
    by (simp add: goldBroker_def goldRequest_def)
  moreover
  have "RequestConnection (goldBroker (\<lambda>_ _. Inr []) Map.empty) goldRequest =
     (goldBroker (\<lambda>_ _. Inr []) Map.empty,
      Inr (\<lparr>Accepted = False, ConnectionParameters = None,
            AdmissionError = ''connection request w1 failed no endpoints were found for requested Network Service gold-network''\<rparr>,
           Some (Status NotFound ''failed no endpoints were found for requested Network Service'')))"
    using new_request [of "\<lambda>_ _. Inr []", THEN conjunct2, THEN conjunct1, THEN mp, THEN conjunct1]
    by (simp add: goldBroker_def goldRequest_def)
  moreover
  have "RequestConnection (goldBroker (\<lambda>_ _. Inr [''nse-1'']) Map.empty) goldRequest =
     (goldBroker (\<lambda>_ _. Inr [''nse-1'']) Map.empty,
      Inr (\<lparr>Accepted = True, ConnectionParameters = Some emptyConnectionParameters,
            AdmissionError = []\<rparr>, None))"
    using new_request [of "\<lambda>_ _. Inr [''nse-1'']", THEN conjunct2, THEN conjunct2, rule_format, of "[''nse-1'']"]
    by (simp add: goldBroker_def goldRequest_def)
  ultimately show ?thesis by blast
qed

text \<open>
  C3. For a registered service with an entry for (request id, service name) whose
  flag says in progress, the reply is refused with the "still being programmed, retry"
  admission error and the code \<open>AlreadyExists\<close>, and \<open>clientConnections\<close> is unchanged.
\<close>

theorem C3_in_progress_refused:
  assumes "objectStore n (NetworkServiceName cr) = Some ns"
    and "clientConnections n (RequestId cr) = Some services"
    and "services (NetworkServiceName cr) = Some (Some c)"
    and "isInProgressFlag c"
  shows "RequestConnection n cr =
           (n, Inr (\<lparr>Accepted = False, ConnectionParameters = None,
                     AdmissionError = ''dataplane for requested Network Service '' @ RequestId cr
                                      @ '' is still being programmed, retry''\<rparr>,
                    Some (Status AlreadyExists
                            ''dataplane for requested network service is being programmed, retry'')))
         \<and> clientConnections (fst (RequestConnection n cr)) = clientConnections n"
  using assms by (simp add: RequestConnection_def isInProgress_def)

text \<open>A second request of \<open>w1\<close> while the first is being programmed.\<close>

theorem C3_witness:
  "RequestConnection (goldBroker (\<lambda>_ _. Inr [''nse-1'']) (goldEntry True)) goldRequest =
     (goldBroker (\<lambda>_ _. Inr [''nse-1'']) (goldEntry True),
      Inr (\<lparr>Accepted = False, ConnectionParameters = None,
            AdmissionError = ''dataplane for requested Network Service w1 is still being programmed, retry''\<rparr>,
           Some (Status AlreadyExists
                   ''dataplane for requested network service is being programmed, retry'')))
   \<and> clientConnections (fst (RequestConnection (goldBroker (\<lambda>_ _. Inr [''nse-1'']) (goldEntry True)) goldRequest))
       = goldEntry True"
  using C3_in_progress_refused [of "goldBroker (\<lambda>_ _. Inr [''nse-1'']) (goldEntry True)" goldRequest
          "''gold-network''"
          "[''gold-network'' \<mapsto> Some \<lparr>networkService = Some ''gold-network'',
              cnsConnectionParameters = Some emptyConnectionParameters, isInProgressFlag = True\<rparr>]"
          "\<lparr>networkService = Some ''gold-network'',
              cnsConnectionParameters = Some emptyConnectionParameters, isInProgressFlag = True\<rparr>"]
  by (simp add: goldBroker_def goldRequest_def goldEntry_def)

text \<open>The call hands the broker back as it received it, also when it is repeated.\<close>

lemma RequestConnection_state: "fst (RequestConnection n cr) = n"
  by (simp add: RequestConnection_def split: option.split sum.split bool.split)

lemma RequestConnection_repeat:
  "((\<lambda>s. fst (RequestConnection s cr)) ^^ k) n = n"
  by (induction k) (simp_all add: RequestConnection_state)

text \<open>
  C4. For a registered service with an entry for (request id, service name) that is
  not in progress, the reply is accepted with freshly empty connection parameters; and
  after any number \<open>k\<close> of such calls the next call gives the same reply and the same broker.
\<close>

theorem C4_completed_idempotent:
  assumes "objectStore n (NetworkServiceName cr) = Some ns"
    and "clientConnections n (RequestId cr) = Some services"
    and "services (NetworkServiceName cr) = Some (Some c)"
    and "\<not> isInProgressFlag c"
  shows "RequestConnection n cr =
           (n, Inr (\<lparr>Accepted = True, ConnectionParameters = Some emptyConnectionParameters,
                     AdmissionError = []\<rparr>, None))
         \<and> RequestConnection (((\<lambda>s. fst (RequestConnection s cr)) ^^ k) n) cr
             = RequestConnection n cr"
  using assms by (simp add: RequestConnection_repeat) (simp add: RequestConnection_def isInProgress_def)

text \<open>A completed entry answers the fourth call like the first, even when the endpoint
  list call would fail.\<close>

theorem C4_witness:
  "RequestConnection (goldBroker (\<lambda>_ _. Inl ''timeout'') (goldEntry False)) goldRequest =
     (goldBroker (\<lambda>_ _. Inl ''timeout'') (goldEntry False),
      Inr (\<lparr>Accepted = True, ConnectionParameters = Some emptyConnectionParameters,
            AdmissionError = []\<rparr>, None))
   \<and> RequestConnection
        (((\<lambda>s. fst (RequestConnection s goldRequest)) ^^ 3) (goldBroker (\<lambda>_ _. Inl ''timeout'') (goldEntry False)))
        goldRequest
       = RequestConnection (goldBroker (\<lambda>_ _. Inl ''timeout'') (goldEntry False)) goldRequest"
  using C4_completed_idempotent [of "goldBroker (\<lambda>_ _. Inl ''timeout'') (goldEntry False)" goldRequest
          "''gold-network''"
          "[''gold-network'' \<mapsto> Some \<lparr>networkService = Some ''gold-network'',
              cnsConnectionParameters = Some emptyConnectionParameters, isInProgressFlag = False\<rparr>]"
          "\<lparr>networkService = Some ''gold-network'',
              cnsConnectionParameters = Some emptyConnectionParameters, isInProgressFlag = False\<rparr>" 3]
  by (simp add: goldBroker_def goldRequest_def goldEntry_def)

text \<open>
  C5. The scenario of the empty registry and the request of workload \<open>w1\<close> for
  \<open>gold-network\<close>, evaluated: the reply is refused with the code \<open>NotFound\<close>, and the
  admission error names the request id; the service name does not occur in it.
\<close>

theorem C5_message_names_request_id:
  "RequestConnection emptyRegistryBroker goldRequest =
     (emptyRegistryBroker,
      Inr (\<lparr>Accepted = False, ConnectionParameters = None,
            AdmissionError = ''requested Network Service w1 does not exist''\<rparr>,
           Some (Status NotFound ''requested network service not found'')))
   \<and> \<not> sublist (NetworkServiceName goldRequest) ''requested Network Service w1 does not exist''"
  by (simp add: RequestConnection_def emptyRegistryBroker_def goldRequest_def sublist_Cons_right)

text \<open>
  C10. On every branch, for every request and every broker, \<open>RequestConnection\<close>
  leaves \<open>clientConnections\<close> and \<open>nsmSockets\<close> (indeed the whole broker) as they were.
\<close>

theorem C10_frame:
  "clientConnections (fst (RequestConnection n cr)) = clientConnections n
   \<and> nsmSockets (fst (RequestConnection n cr)) = nsmSockets n
   \<and> fst (RequestConnection n cr) = n"
  by (simp add: RequestConnection_def split: option.split sum.split bool.split)

subsection \<open>The dataplane store\<close>

text \<open>
  C6. \<open>Add\<close> of a descriptor (a pointer that is not \<^verbatim>\<open>nil\<close>) never fails and the first
  write wins: when the registered name has an entry the store is returned unchanged and
  \<open>Get\<close> still gives the descriptor stored first; when it has none the descriptor is
  inserted and \<open>Get\<close> gives it; other names are untouched; adding the same descriptor
  again, or another one under the same name, changes nothing. \<open>Get\<close> has no failure:
  absence is \<open>None\<close>.
\<close>

theorem C6_Add_first_write_wins:
  "(\<forall>old. Get d (RegisteredName dp) = Some old \<longrightarrow>
      Add d (Some dp) = Inr d \<and> Get (projr (Add d (Some dp))) (RegisteredName dp) = Some old)
   \<and> (Get d (RegisteredName dp) = None \<longrightarrow>
        Add d (Some dp) = Inr (d\<lparr>dataplanes := (dataplanes d)(RegisteredName dp \<mapsto> dp)\<rparr>)
        \<and> Get (projr (Add d (Some dp))) (RegisteredName dp) = Some dp)
   \<and> (\<forall>name. name \<noteq> RegisteredName dp \<longrightarrow> Get (projr (Add d (Some dp))) name = Get d name)
   \<and> (\<exists>d'. Add d (Some dp) = Inr d' \<and> Add d' (Some dp) = Inr d')
   \<and> (\<forall>dp'. RegisteredName dp' = RegisteredName dp \<longrightarrow>
         (\<exists>d' d''. Add d (Some dp) = Inr d' \<and> Add d' (Some dp') = Inr d''
            \<and> Get d'' (RegisteredName dp) = Get d' (RegisteredName dp)))"
  by (auto simp: Add_def Get_def split: option.splits)

text \<open>Registering \<open>vpp\<close> twice with different socket locations keeps the first.\<close>

theorem C6_witness:
  "Add newDataplaneStore (Some (vppDataplane ''/var/lib/a.sock''))
     = Inr \<lparr>dataplanes = [''vpp'' \<mapsto> vppDataplane ''/var/lib/a.sock'']\<rparr>
   \<and> Add \<lparr>dataplanes = [''vpp'' \<mapsto> vppDataplane ''/var/lib/a.sock'']\<rparr> (Some (vppDataplane ''/var/lib/b.sock''))
     = Inr \<lparr>dataplanes = [''vpp'' \<mapsto> vppDataplane ''/var/lib/a.sock'']\<rparr>
   \<and> Get \<lparr>dataplanes = [''vpp'' \<mapsto> vppDataplane ''/var/lib/a.sock'']\<rparr> ''vpp'' = Some (vppDataplane ''/var/lib/a.sock'')
   \<and> Get \<lparr>dataplanes = [''vpp'' \<mapsto> vppDataplane ''/var/lib/a.sock'']\<rparr> ''ovs'' = None"
  using C6_Add_first_write_wins [of newDataplaneStore "vppDataplane ''/var/lib/a.sock''"]
        C6_Add_first_write_wins [of "\<lparr>dataplanes = [''vpp'' \<mapsto> vppDataplane ''/var/lib/a.sock'']\<rparr>" "vppDataplane ''/var/lib/b.sock''"]
  by (simp add: newDataplaneStore_def vppDataplane_def Get_def)

subsection \<open>Allocate\<close>

text \<open>Starting a server and the stop rendezvous make no channel; a server that is
  waiting stays so when another one is started; the rendezvous removes one waiting
  server, which held the channel, and closes the channel.\<close>

lemma startClientServer_nextChan: "nextChan (startClientServer env d n rt) = nextChan rt"
  by (simp add: startClientServer_def Let_def)

lemma startClientServer_waiting: "w \<in> set (waiting rt) \<Longrightarrow> w \<in> set (waiting (startClientServer env d n rt))"
  by (simp add: startClientServer_def Let_def)

lemma find_Some_set: "find P xs = Some x \<Longrightarrow> x \<in> set xs \<and> P x"
  by (induction xs) (auto split: if_splits)

lemma stopRendezvous_result:
  assumes "stopRendezvous ch rt = Returned rt1"
  shows "nextChan rt1 = nextChan rt"
    and "\<exists>c client. ch = Some c \<and> client \<in> set (waiting rt) \<and> stopChannel client = Some c
           \<and> waiting rt1 = remove1 client (waiting rt) \<and> closed rt1 = closed rt @ [c]
           \<and> serving rt1 = serving rt"
  using assms
  by (auto simp: stopRendezvous_def dest: find_Some_set split: option.splits)

lemma stopRendezvous_returns:
  assumes "ch \<noteq> None" and "ch \<in> set (map stopChannel (waiting rt))"
  shows "\<exists>rt1. stopRendezvous ch rt = Returned rt1"
proof -
  from assms obtain c where c: "ch = Some c" by auto
  with assms(2) have "find (\<lambda>client. stopChannel client = Some c) (waiting rt) \<noteq> None"
    by (auto simp: find_None_iff)
  with c show ?thesis by (auto simp: stopRendezvous_def)
qed

lemma stopRendezvous_waiting:
  assumes "stopRendezvous ch rt = Returned rt1" and "w \<in> set (waiting rt)" and "stopChannel w \<noteq> ch"
  shows "w \<in> set (waiting rt1)"
proof -
  from stopRendezvous_result(2) [OF assms(1)] obtain c client where
    "ch = Some c" "stopChannel client = Some c" "waiting rt1 = remove1 client (waiting rt)"
    by blast
  moreover from this assms(3) have "w \<noteq> client" by auto
  ultimately show ?thesis using assms(2) by (simp add: in_set_remove1)
qed

text \<open>What one round of the inner loop does when it returns.\<close>

lemma Allocate_id_result:
  assumes "Allocate_id env d (n, rt, ms) = Returned (n', rt', ms')"
  shows "ms' = ms @ map (mountFor env) (filter (\<lambda>i. i \<in> dom (nsmSockets n) \<and> mkdirAll env (HostPath (mountFor env i))) [d])"
    and "dom (nsmSockets n') = dom (nsmSockets n)"
    and "nextChan rt \<le> nextChan rt'"
    and "d \<in> dom (nsmSockets n) \<Longrightarrow> nextChan rt < nextChan rt' \<and> nsmSockets n' d = Some (socketFor env d (nextChan rt))"
    and "i \<noteq> d \<Longrightarrow> nsmSockets n' i = nsmSockets n i"
    and "n' = n\<lparr>nsmSockets := nsmSockets n'\<rparr>"
  using assms
  by (auto simp: Allocate_id_def Let_def startClientServer_nextChan
           dest: stopRendezvous_result(1) split: option.splits if_splits outcome.splits)

text \<open>A round returns when the entry is not allocated or a server waits on its channel;
  a round that returns for an allocated entry went through the rendezvous; and a
  server waiting on another channel is still waiting afterwards.\<close>

lemma Allocate_id_returns:
  assumes "serversWaiting n rt [d]"
  shows "\<exists>r. Allocate_id env d (n, rt, ms) = Returned r"
proof (cases "nsmSockets n d")
  case None
  then show ?thesis by (simp add: Allocate_id_def)
next
  case (Some s)
  show ?thesis
  proof (cases "allocated s")
    case True
    with Some assms have "stopChannel s \<noteq> None" "stopChannel s \<in> set (map stopChannel (waiting rt))"
      by (auto simp: serversWaiting_def)
    from stopRendezvous_returns [OF this] obtain rt1 where "stopRendezvous (stopChannel s) rt = Returned rt1"
      by blast
    with Some True show ?thesis by (simp add: Allocate_id_def Let_def)
  next
    case False
    with Some show ?thesis by (simp add: Allocate_id_def Let_def)
  qed
qed

lemma Allocate_id_rendezvous:
  assumes "Allocate_id env d (n, rt, ms) = Returned (n', rt', ms')"
    and "nsmSockets n d = Some s" and "allocated s"
  shows "\<exists>c client. stopChannel s = Some c \<and> client \<in> set (waiting rt) \<and> stopChannel client = Some c
           \<and> c \<in> set (closed rt')"
proof -
  from assms obtain rt1 where r: "stopRendezvous (stopChannel s) rt = Returned rt1"
    by (auto simp: Allocate_id_def split: outcome.splits)
  from stopRendezvous_result(2) [OF r] obtain c client where
    c: "stopChannel s = Some c" "client \<in> set (waiting rt)" "stopChannel client = Some c"
       "closed rt1 = closed rt @ [c]"
    by blast
  from assms r have "closed rt' = closed rt1"
    by (auto simp: Allocate_id_def Let_def startClientServer_def split: if_splits)
  with c show ?thesis by auto
qed

lemma Allocate_id_waiting:
  assumes "Allocate_id env d (n, rt, ms) = Returned (n', rt', ms')"
    and "w \<in> set (waiting rt)"
    and "\<forall>s. nsmSockets n d = Some s \<and> allocated s \<longrightarrow> stopChannel w \<noteq> stopChannel s"
  shows "w \<in> set (waiting rt')"
proof (cases "nsmSockets n d")
  case None
  with assms(1,2) show ?thesis by (simp add: Allocate_id_def)
next
  case (Some s)
  from assms(1) Some obtain rt1 where
    r: "(if allocated s then stopRendezvous (stopChannel s) rt else Returned rt) = Returned rt1"
    by (auto simp: Allocate_id_def split: outcome.splits)
  have w1: "w \<in> set (waiting rt1)"
  proof (cases "allocated s")
    case True
    with r have "stopRendezvous (stopChannel s) rt = Returned rt1" by simp
    moreover from True Some assms(3) have "stopChannel w \<noteq> stopChannel s" by simp
    ultimately show ?thesis using assms(2) by (auto intro: stopRendezvous_waiting)
  next
    case False
    with r assms(2) show ?thesis by simp
  qed
  from assms(1) Some r have
    "rt' = startClientServer env d n' (rt1\<lparr>nextChan := Suc (nextChan rt1), started := started rt1 @ [d]\<rparr>)
     \<or> rt' = rt1\<lparr>nextChan := Suc (nextChan rt1)\<rparr>"
    by (auto simp: Allocate_id_def Let_def split: if_splits)
  with w1 show ?thesis by (auto intro: startClientServer_waiting)
qed

lemma prepared_Nil: "prepared env n [] = []"
  by (simp add: prepared_def)

lemma prepared_Cons: "prepared env n (i # ids) = prepared env n [i] @ prepared env n ids"
  by (simp add: prepared_def)

lemma prepared_dom: "dom (nsmSockets n1) = dom (nsmSockets n) \<Longrightarrow> prepared env n1 ids = prepared env n ids"
  by (simp add: prepared_def)

text \<open>The inner loop, by induction on the device ids with the broker, the runtime and
  the mounts generalised: the keys of the device table stay the same, the channel
  numbers only grow, each known id of the list ends with a descriptor whose channel was
  made during the loop, and every other entry is untouched.\<close>

lemma Allocate_ids_result:
  "Allocate_ids env ids (n, rt, ms) = Returned (n', rt', ms') \<Longrightarrow>
     ms' = ms @ prepared env n ids
     \<and> dom (nsmSockets n') = dom (nsmSockets n)
     \<and> nextChan rt \<le> nextChan rt'
     \<and> (\<forall>i. i \<in> set ids \<and> i \<in> dom (nsmSockets n) \<longrightarrow>
           (\<exists>c. nextChan rt \<le> c \<and> c < nextChan rt' \<and> nsmSockets n' i = Some (socketFor env i c)))
     \<and> (\<forall>i. i \<notin> set ids \<longrightarrow> nsmSockets n' i = nsmSockets n i)
     \<and> n' = n\<lparr>nsmSockets := nsmSockets n'\<rparr>"
proof (induction ids arbitrary: n rt ms)
  case Nil
  then show ?case by (simp add: prepared_Nil)
next
  case (Cons d ids)
  from Cons.prems obtain n1 rt1 ms1 where
    first: "Allocate_id env d (n, rt, ms) = Returned (n1, rt1, ms1)" and
    rest: "Allocate_ids env ids (n1, rt1, ms1) = Returned (n', rt', ms')"
    by (auto split: outcome.splits)
  note f = Allocate_id_result [OF first]
  note r = Cons.IH [OF rest]
  have dom1: "dom (nsmSockets n1) = dom (nsmSockets n)" by (rule f(2))
  have ms1: "ms1 = ms @ prepared env n [d]" using f(1) by (simp add: prepared_def)
  have a: "ms' = ms @ prepared env n (d # ids)"
    using r ms1 prepared_dom [OF dom1, of env ids] prepared_Cons [of env n d ids] by simp
  have b: "dom (nsmSockets n') = dom (nsmSockets n)" using r dom1 by simp
  have c: "nextChan rt \<le> nextChan rt'" using r f(3) by simp
  have d: "\<exists>c. nextChan rt \<le> c \<and> c < nextChan rt' \<and> nsmSockets n' i = Some (socketFor env i c)"
    if i: "i \<in> set (d # ids)" "i \<in> dom (nsmSockets n)" for i
  proof (cases "i \<in> set ids")
    case True
    with r i(2) dom1 obtain c where "nextChan rt1 \<le> c" "c < nextChan rt'" "nsmSockets n' i = Some (socketFor env i c)"
      by blast
    with f(3) show ?thesis by (intro exI [of _ c]) simp
  next
    case False
    with i(1) have "i = d" by simp
    with False r have "nsmSockets n' d = nsmSockets n1 d" by simp
    moreover from f(4) i(2) \<open>i = d\<close> have "nextChan rt < nextChan rt1" "nsmSockets n1 d = Some (socketFor env d (nextChan rt))"
      by simp_all
    moreover from r have "nextChan rt1 \<le> nextChan rt'" by simp
    ultimately show ?thesis using \<open>i = d\<close> by (intro exI [of _ "nextChan rt"]) simp
  qed
  have e: "nsmSockets n' i = nsmSockets n i" if "i \<notin> set (d # ids)" for i
    using that r f(5) [of i] by simp
  have g: "n' = n\<lparr>nsmSockets := nsmSockets n'\<rparr>"
  proof -
    from r have "n' = n1\<lparr>nsmSockets := nsmSockets n'\<rparr>" by simp
    also from f(6) have "n1 = n\<lparr>nsmSockets := nsmSockets n1\<rparr>" .
    finally show ?thesis by simp
  qed
  from a b c d e g show ?case by blast
qed

text \<open>The same for the outer loop over the container requests.\<close>

lemma Allocate_requests_result:
  "Allocate_requests env reqs (n, rt, rs) = Returned (n', rt', rs') \<Longrightarrow>
     rs' = rs @ map (\<lambda>req. \<lparr>Mounts = prepared env n (DevicesIDs req)\<rparr>) reqs
     \<and> dom (nsmSockets n') = dom (nsmSockets n)
     \<and> nextChan rt \<le> nextChan rt'
     \<and> (\<forall>i. i \<in> requested reqs \<and> i \<in> dom (nsmSockets n) \<longrightarrow>
           (\<exists>c. nextChan rt \<le> c \<and> c < nextChan rt' \<and> nsmSockets n' i = Some (socketFor env i c)))
     \<and> (\<forall>i. i \<notin> requested reqs \<longrightarrow> nsmSockets n' i = nsmSockets n i)
     \<and> n' = n\<lparr>nsmSockets := nsmSockets n'\<rparr>"
proof (induction reqs arbitrary: n rt rs)
  case Nil
  then show ?case by (simp add: requested_def)
next
  case (Cons req reqs)
  from Cons.prems obtain n1 rt1 ms where
    first: "Allocate_ids env (DevicesIDs req) (n, rt, []) = Returned (n1, rt1, ms)" and
    rest: "Allocate_requests env reqs (n1, rt1, rs @ [\<lparr>Mounts = ms\<rparr>]) = Returned (n', rt', rs')"
    by (auto split: outcome.splits)
  note f = Allocate_ids_result [OF first]
  note r = Cons.IH [OF rest]
  have dom1: "dom (nsmSockets n1) = dom (nsmSockets n)" using f by simp
  have a: "rs' = rs @ map (\<lambda>req. \<lparr>Mounts = prepared env n (DevicesIDs req)\<rparr>) (req # reqs)"
    using r f prepared_dom [OF dom1, of env] by simp
  have b: "dom (nsmSockets n') = dom (nsmSockets n)" using r dom1 by simp
  have c: "nextChan rt \<le> nextChan rt'" using r f by simp
  have d: "\<exists>c. nextChan rt \<le> c \<and> c < nextChan rt' \<and> nsmSockets n' i = Some (socketFor env i c)"
    if i: "i \<in> requested (req # reqs)" "i \<in> dom (nsmSockets n)" for i
  proof (cases "i \<in> requested reqs")
    case True
    with r i(2) dom1 obtain c where "nextChan rt1 \<le> c" "c < nextChan rt'" "nsmSockets n' i = Some (socketFor env i c)"
      by blast
    moreover from f have "nextChan rt \<le> nextChan rt1" by simp
    ultimately show ?thesis by (intro exI [of _ c]) simp
  next
    case False
    with i(1) have here: "i \<in> set (DevicesIDs req)" by (simp add: requested_def)
    from False r have "nsmSockets n' i = nsmSockets n1 i" by simp
    moreover from f here i(2) obtain c where "nextChan rt \<le> c" "c < nextChan rt1" "nsmSockets n1 i = Some (socketFor env i c)"
      by blast
    moreover from r have "nextChan rt1 \<le> nextChan rt'" by simp
    ultimately show ?thesis by (intro exI [of _ c]) simp
  qed
  have e: "nsmSockets n' i = nsmSockets n i" if "i \<notin> requested (req # reqs)" for i
  proof -
    from that have "i \<notin> requested reqs" "i \<notin> set (DevicesIDs req)" by (simp_all add: requested_def)
    with r f show ?thesis by simp
  qed
  have g: "n' = n\<lparr>nsmSockets := nsmSockets n'\<rparr>"
  proof -
    from r have "n' = n1\<lparr>nsmSockets := nsmSockets n'\<rparr>" by simp
    also from f have "n1 = n\<lparr>nsmSockets := nsmSockets n1\<rparr>" by simp
    finally show ?thesis by simp
  qed
  from a b c d e g show ?case by blast
qed

text \<open>
  When does the call return? At least when no device id occurs twice and every id with
  an allocated entry has a server waiting on a channel of its own: each round then
  finds its server, and the servers of the ids still to come are left waiting.
\<close>

lemma ownChannelsD:
  "ownChannels n ids \<Longrightarrow> i \<in> set ids \<Longrightarrow> j \<in> set ids \<Longrightarrow> i \<noteq> j \<Longrightarrow>
     nsmSockets n i = Some s \<Longrightarrow> nsmSockets n j = Some t \<Longrightarrow> allocated s \<Longrightarrow> allocated t \<Longrightarrow>
     stopChannel s \<noteq> stopChannel t"
  unfolding ownChannels_def by blast

lemma Allocate_ids_returns:
  "distinct (ids @ rest) \<Longrightarrow> serversWaiting n rt (ids @ rest) \<Longrightarrow> ownChannels n (ids @ rest) \<Longrightarrow>
     \<exists>n' rt' ms'. Allocate_ids env ids (n, rt, ms) = Returned (n', rt', ms')
        \<and> serversWaiting n' rt' rest \<and> ownChannels n' rest"
proof (induction ids arbitrary: n rt ms)
  case Nil
  then show ?case by simp
next
  case (Cons d ids)
  from Cons.prems(2) have "serversWaiting n rt [d]" by (auto simp: serversWaiting_def)
  from Allocate_id_returns [OF this] obtain n1 rt1 ms1 where
    first: "Allocate_id env d (n, rt, ms) = Returned (n1, rt1, ms1)"
    by (metis prod_cases3)
  note f = Allocate_id_result [OF first]
  have same: "nsmSockets n1 i = nsmSockets n i" if "i \<in> set (ids @ rest)" for i
  proof -
    from that Cons.prems(1) have "i \<noteq> d" by auto
    then show ?thesis by (rule f(5))
  qed
  have sw: "serversWaiting n1 rt1 (ids @ rest)"
    unfolding serversWaiting_def
  proof (intro allI impI)
    fix i s
    assume a: "i \<in> set (ids @ rest) \<and> nsmSockets n1 i = Some s \<and> allocated s"
    then have i: "i \<in> set (ids @ rest)" and s: "nsmSockets n i = Some s" and al: "allocated s"
      using same by auto
    from Cons.prems(1) i have "i \<noteq> d" by auto
    from Cons.prems(2) i s al have ch: "stopChannel s \<noteq> None" "stopChannel s \<in> set (map stopChannel (waiting rt))"
      by (auto simp: serversWaiting_def)
    then obtain w where w: "w \<in> set (waiting rt)" "stopChannel w = stopChannel s" by auto
    have "\<forall>t. nsmSockets n d = Some t \<and> allocated t \<longrightarrow> stopChannel w \<noteq> stopChannel t"
    proof (intro allI impI)
      fix t
      assume t: "nsmSockets n d = Some t \<and> allocated t"
      from t have "nsmSockets n d = Some t" "allocated t" by simp_all
      with Cons.prems(3) i s al \<open>i \<noteq> d\<close> have "stopChannel s \<noteq> stopChannel t"
        by (intro ownChannelsD [of n "(d # ids) @ rest" i d s t]) simp_all
      with w(2) show "stopChannel w \<noteq> stopChannel t" by simp
    qed
    from Allocate_id_waiting [OF first w(1) this] have "stopChannel w \<in> stopChannel ` set (waiting rt1)"
      by (rule imageI)
    with w(2) have "stopChannel s \<in> set (map stopChannel (waiting rt1))" by simp
    with ch(1) show "stopChannel s \<noteq> None \<and> stopChannel s \<in> set (map stopChannel (waiting rt1))" by simp
  qed
  have oc: "ownChannels n1 (ids @ rest)"
    unfolding ownChannels_def
  proof (intro allI impI)
    fix i j s t
    assume a: "i \<in> set (ids @ rest) \<and> j \<in> set (ids @ rest) \<and> i \<noteq> j \<and> nsmSockets n1 i = Some s
                \<and> nsmSockets n1 j = Some t \<and> allocated s \<and> allocated t"
    then have "nsmSockets n i = Some s" "nsmSockets n j = Some t" using same by auto
    with a Cons.prems(3) show "stopChannel s \<noteq> stopChannel t"
      by (intro ownChannelsD [of n "(d # ids) @ rest" i j s t]) simp_all
  qed
  from Cons.prems(1) have "distinct (ids @ rest)" by simp
  from Cons.IH [OF this sw oc, of ms1] first show ?case by simp
qed

lemma Allocate_requests_returns:
  "distinct (concat (map DevicesIDs reqs)) \<Longrightarrow>
   serversWaiting n rt (concat (map DevicesIDs reqs)) \<Longrightarrow>
   ownChannels n (concat (map DevicesIDs reqs)) \<Longrightarrow>
     \<exists>r. Allocate_requests env reqs (n, rt, rs) = Returned r"
proof (induction reqs arbitrary: n rt rs)
  case Nil
  show ?case by (simp del: split_paired_Ex)
next
  case (Cons req reqs)
  from Cons.prems have
    "distinct (DevicesIDs req @ concat (map DevicesIDs reqs))"
    "serversWaiting n rt (DevicesIDs req @ concat (map DevicesIDs reqs))"
    "ownChannels n (DevicesIDs req @ concat (map DevicesIDs reqs))"
    by simp_all
  from Allocate_ids_returns [OF this, of env "[]"] obtain n1 rt1 ms1 where
    inner: "Allocate_ids env (DevicesIDs req) (n, rt, []) = Returned (n1, rt1, ms1)" and
    sw: "serversWaiting n1 rt1 (concat (map DevicesIDs reqs))" and
    oc: "ownChannels n1 (concat (map DevicesIDs reqs))"
    by blast
  from Cons.prems(1) have "distinct (concat (map DevicesIDs reqs))" by simp
  from Cons.IH [OF this sw oc, of "rs @ [\<lparr>Mounts = ms1\<rparr>]"] inner show ?case by simp
qed

text \<open>No round ever takes a gRPC server out of \<open>serving\<close>.\<close>

lemma Allocate_id_serving:
  assumes "Allocate_id env d (n, rt, ms) = Returned (n', rt', ms')"
  shows "\<exists>more. serving rt' = serving rt @ more"
proof (cases "nsmSockets n d")
  case None
  with assms show ?thesis by (simp add: Allocate_id_def)
next
  case (Some s)
  from assms Some obtain rt1 where
    r: "(if allocated s then stopRendezvous (stopChannel s) rt else Returned rt) = Returned rt1"
    by (auto simp: Allocate_id_def split: outcome.splits)
  have "serving rt1 = serving rt"
    using r stopRendezvous_result(2) [of "stopChannel s" rt rt1] by (auto split: if_splits)
  moreover from assms Some r have "\<exists>more. serving rt' = serving rt1 @ more"
    by (auto simp: Allocate_id_def Let_def startClientServer_def split: if_splits)
  ultimately show ?thesis by simp
qed

text \<open>
  C7, as stated, fails: a device id of the batch that is no key of \<open>nsmSockets\<close> gets no
  descriptor. With an empty device table and a directory creation that always succeeds,
  allocating \<open>dev-A\<close> returns the broker and the runtime as they were (no entry for
  \<open>dev-A\<close>, no channel made, no server started) and an empty mount list.
\<close>

theorem C7_counterexample:
  "Allocate (exampleEnv always always) emptyRegistryBroker (freshRuntime 0 []) devA_request
     = Returned (emptyRegistryBroker, freshRuntime 0 [], \<lparr>ContainerResponses = [\<lparr>Mounts = []\<rparr>]\<rparr>, None)
   \<and> nsmSockets emptyRegistryBroker ''dev-A'' = None"
  by (simp add: Allocate_def Allocate_id_def devA_request_def emptyRegistryBroker_def)

text \<open>
  C7, amended. Whenever \<open>Allocate\<close> returns, whatever the surroundings, it returns no
  error and: the response has one entry per container request, whose mounts are, in the
  order of the request, those of the device ids that are keys of \<open>nsmSockets\<close> and whose
  host directory could be made, each with the socket base directory as container path
  and the join of the base directory and \<open>nsm-<id>\<close> as host path; every device id of the
  batch that is a key of \<open>nsmSockets\<close> ends with a descriptor that holds a channel made
  during the call and the allocation flag set, whether or not its directory could be
  made; every other entry of the device table is as before, so that an id that is no
  key gets no descriptor; \<open>clientConnections\<close> is untouched. And the call does return
  when the batch names no device id twice and every known id of the batch whose entry
  says allocated has a server goroutine waiting on the entry's channel, different ids
  having different channels.
\<close>

theorem C7_Allocate_known_ids:
  "(\<forall>n' rt' resp err.
      Allocate env n rt reqs = Returned (n', rt', resp, err) \<longrightarrow>
        err = None
        \<and> resp =
            \<lparr>ContainerResponses =
               map (\<lambda>req. \<lparr>Mounts =
                      map (\<lambda>i. \<lparr>ContainerPath = SocketBaseDir env,
                                 HostPath = pathJoin env (SocketBaseDir env) (''nsm-'' @ i),
                                 ReadOnly = False\<rparr>)
                        (filter (\<lambda>i. i \<in> dom (nsmSockets n)
                                   \<and> mkdirAll env (pathJoin env (SocketBaseDir env) (''nsm-'' @ i)))
                           (DevicesIDs req))\<rparr>)
                 (ContainerRequests reqs)\<rparr>
        \<and> (\<forall>i. i \<in> set (concat (map DevicesIDs (ContainerRequests reqs))) \<and> i \<in> dom (nsmSockets n) \<longrightarrow>
              (\<exists>c. nextChan rt \<le> c \<and> c < nextChan rt' \<and>
                   nsmSockets n' i =
                     Some \<lparr>device = Some \<lparr>ID = i, Health = Healthy\<rparr>,
                           socketPath = pathJoin env (pathJoin env (SocketBaseDir env) (''nsm-'' @ i)) (ServerSock env),
                           stopChannel = Some c, allocated = True\<rparr>))
        \<and> (\<forall>i. i \<notin> set (concat (map DevicesIDs (ContainerRequests reqs))) \<or> i \<notin> dom (nsmSockets n) \<longrightarrow>
              nsmSockets n' i = nsmSockets n i)
        \<and> clientConnections n' = clientConnections n)
   \<and> (distinct (concat (map DevicesIDs (ContainerRequests reqs)))
       \<and> (\<forall>i s. i \<in> set (concat (map DevicesIDs (ContainerRequests reqs))) \<and> nsmSockets n i = Some s \<and> allocated s \<longrightarrow>
             stopChannel s \<noteq> None \<and> stopChannel s \<in> set (map stopChannel (waiting rt)))
       \<and> (\<forall>i j s t. i \<in> set (concat (map DevicesIDs (ContainerRequests reqs)))
             \<and> j \<in> set (concat (map DevicesIDs (ContainerRequests reqs))) \<and> i \<noteq> j
             \<and> nsmSockets n i = Some s \<and> nsmSockets n j = Some t \<and> allocated s \<and> allocated t \<longrightarrow>
             stopChannel s \<noteq> stopChannel t)
       \<longrightarrow> (\<exists>r. Allocate env n rt reqs = Returned r))"
proof (intro conjI allI impI)
  fix n' rt' resp err
  assume ret: "Allocate env n rt reqs = Returned (n', rt', resp, err)"
  then obtain rs where
    run: "Allocate_requests env (ContainerRequests reqs) (n, rt, []) = Returned (n', rt', rs)" and
    resp: "resp = \<lparr>ContainerResponses = rs\<rparr>" and err: "err = None"
    by (auto simp: Allocate_def split: outcome.splits)
  note r = Allocate_requests_result [OF run]
  have req: "requested (ContainerRequests reqs) = set (concat (map DevicesIDs (ContainerRequests reqs)))"
    by (simp add: requested_def)
  show "err = None" by (rule err)
  show "resp =
            \<lparr>ContainerResponses =
               map (\<lambda>req. \<lparr>Mounts =
                      map (\<lambda>i. \<lparr>ContainerPath = SocketBaseDir env,
                                 HostPath = pathJoin env (SocketBaseDir env) (''nsm-'' @ i),
                                 ReadOnly = False\<rparr>)
                        (filter (\<lambda>i. i \<in> dom (nsmSockets n)
                                   \<and> mkdirAll env (pathJoin env (SocketBaseDir env) (''nsm-'' @ i)))
                           (DevicesIDs req))\<rparr>)
                 (ContainerRequests reqs)\<rparr>"
    using r resp by (simp add: prepared_def mountFor_def)
  show "clientConnections n' = clientConnections n"
  proof -
    from r have "n' = n\<lparr>nsmSockets := nsmSockets n'\<rparr>" by simp
    then have "clientConnections n' = clientConnections (n\<lparr>nsmSockets := nsmSockets n'\<rparr>)" by simp
    then show ?thesis by simp
  qed
  {
    fix i
    assume "i \<in> set (concat (map DevicesIDs (ContainerRequests reqs))) \<and> i \<in> dom (nsmSockets n)"
    with r req obtain c where "nextChan rt \<le> c" "c < nextChan rt'" "nsmSockets n' i = Some (socketFor env i c)"
      by blast
    then show "\<exists>c. nextChan rt \<le> c \<and> c < nextChan rt' \<and>
                   nsmSockets n' i =
                     Some \<lparr>device = Some \<lparr>ID = i, Health = Healthy\<rparr>,
                           socketPath = pathJoin env (pathJoin env (SocketBaseDir env) (''nsm-'' @ i)) (ServerSock env),
                           stopChannel = Some c, allocated = True\<rparr>"
      by (intro exI [of _ c]) (simp add: socketFor_def mountFor_def)
  }
  {
    fix i
    assume other: "i \<notin> set (concat (map DevicesIDs (ContainerRequests reqs))) \<or> i \<notin> dom (nsmSockets n)"
    show "nsmSockets n' i = nsmSockets n i"
    proof (cases "i \<in> dom (nsmSockets n)")
      case True
      with other r req show ?thesis by blast
    next
      case False
      moreover from r have "dom (nsmSockets n') = dom (nsmSockets n)" by simp
      ultimately have "nsmSockets n i = None" "nsmSockets n' i = None" by (auto simp: domIff)
      then show ?thesis by simp
    qed
  }
next
  assume h: "distinct (concat (map DevicesIDs (ContainerRequests reqs)))
       \<and> (\<forall>i s. i \<in> set (concat (map DevicesIDs (ContainerRequests reqs))) \<and> nsmSockets n i = Some s \<and> allocated s \<longrightarrow>
             stopChannel s \<noteq> None \<and> stopChannel s \<in> set (map stopChannel (waiting rt)))
       \<and> (\<forall>i j s t. i \<in> set (concat (map DevicesIDs (ContainerRequests reqs)))
             \<and> j \<in> set (concat (map DevicesIDs (ContainerRequests reqs))) \<and> i \<noteq> j
             \<and> nsmSockets n i = Some s \<and> nsmSockets n j = Some t \<and> allocated s \<and> allocated t \<longrightarrow>
             stopChannel s \<noteq> stopChannel t)"
  then have d: "distinct (concat (map DevicesIDs (ContainerRequests reqs)))"
    and sw: "serversWaiting n rt (concat (map DevicesIDs (ContainerRequests reqs)))"
    and oc: "ownChannels n (concat (map DevicesIDs (ContainerRequests reqs)))"
    unfolding serversWaiting_def ownChannels_def by blast+
  from Allocate_requests_returns [OF d sw oc, of env "[]"] obtain n' rt' rs where
    "Allocate_requests env (ContainerRequests reqs) (n, rt, []) = Returned (n', rt', rs)"
    by (metis prod_cases3)
  then show "\<exists>r. Allocate env n rt reqs = Returned r"
    by (simp add: Allocate_def)
qed
text \<open>A batch over \<open>dev-A\<close>, allocated and with its server waiting, \<open>dev-B\<close>, whose directory
  cannot be made, and the unknown \<open>dev-C\<close>.\<close>

theorem C7_witness:
  "\<exists>n' rt'.
     Allocate (exampleEnv mkdirExceptDevB always) deviceBroker servedRuntime mixed_request =
       Returned (n', rt',
         \<lparr>ContainerResponses =
            [\<lparr>Mounts = [\<lparr>ContainerPath = ''/var/lib/networkservicemesh'',
                          HostPath = ''/var/lib/networkservicemesh/nsm-dev-A'',
                          ReadOnly = False\<rparr>]\<rparr>,
             \<lparr>Mounts = []\<rparr>]\<rparr>,
         None)
     \<and> (\<exists>c. 1 \<le> c \<and> nsmSockets n' ''dev-A'' =
            Some \<lparr>device = Some \<lparr>ID = ''dev-A'', Health = ''Healthy''\<rparr>,
                  socketPath = ''/var/lib/networkservicemesh/nsm-dev-A/nsm.client.sock'',
                  stopChannel = Some c, allocated = True\<rparr>)
     \<and> (\<exists>c. 1 \<le> c \<and> nsmSockets n' ''dev-B'' =
            Some \<lparr>device = Some \<lparr>ID = ''dev-B'', Health = ''Healthy''\<rparr>,
                  socketPath = ''/var/lib/networkservicemesh/nsm-dev-B/nsm.client.sock'',
                  stopChannel = Some c, allocated = True\<rparr>)
     \<and> nsmSockets n' ''dev-C'' = None"
proof -
  let ?env = "exampleEnv mkdirExceptDevB always"
  let ?ids = "concat (map DevicesIDs (ContainerRequests mixed_request))"
  have ids: "?ids = [''dev-A'', ''dev-B'', ''dev-C'']"
    by (simp add: mixed_request_def)
  have devices: "dom (nsmSockets deviceBroker) = {''dev-A'', ''dev-B''}"
    by (auto simp: deviceBroker_def poolBroker_def)
  have entries: "nsmSockets deviceBroker ''dev-A'' = Some devA_socket"
    "nsmSockets deviceBroker ''dev-B'' = Some (idleSocket ''dev-B'')"
    "nsmSockets deviceBroker ''dev-C'' = None"
    by (simp_all add: deviceBroker_def poolBroker_def)
  have noTwice: "distinct ?ids"
    by (simp add: ids)
  have servers: "\<forall>i s. i \<in> set ?ids \<and> nsmSockets deviceBroker i = Some s \<and> allocated s \<longrightarrow>
          stopChannel s \<noteq> None \<and> stopChannel s \<in> set (map stopChannel (waiting servedRuntime))"
    by (auto simp: ids entries servedRuntime_def devA_socket_def idleSocket_def)
  have channels: "\<forall>i j s t. i \<in> set ?ids \<and> j \<in> set ?ids \<and> i \<noteq> j
          \<and> nsmSockets deviceBroker i = Some s \<and> nsmSockets deviceBroker j = Some t \<and> allocated s \<and> allocated t \<longrightarrow>
          stopChannel s \<noteq> stopChannel t"
    by (auto simp: ids entries idleSocket_def)
  note inst = C7_Allocate_known_ids [of ?env deviceBroker servedRuntime mixed_request]
  from inst [THEN conjunct2] noTwice servers channels
  obtain n' rt' resp err where
    ret: "Allocate ?env deviceBroker servedRuntime mixed_request = Returned (n', rt', resp, err)"
    by (metis prod_cases4)
  note res = inst [THEN conjunct1, rule_format, OF ret]
  from res have err: "err = None" by blast
  from res have "resp =
            \<lparr>ContainerResponses =
               map (\<lambda>req. \<lparr>Mounts =
                      map (\<lambda>i. \<lparr>ContainerPath = SocketBaseDir ?env,
                                 HostPath = pathJoin ?env (SocketBaseDir ?env) (''nsm-'' @ i),
                                 ReadOnly = False\<rparr>)
                        (filter (\<lambda>i. i \<in> dom (nsmSockets deviceBroker)
                                   \<and> mkdirAll ?env (pathJoin ?env (SocketBaseDir ?env) (''nsm-'' @ i)))
                           (DevicesIDs req))\<rparr>)
                 (ContainerRequests mixed_request)\<rparr>"
    by blast
  then have resp: "resp =
         \<lparr>ContainerResponses =
            [\<lparr>Mounts = [\<lparr>ContainerPath = ''/var/lib/networkservicemesh'',
                          HostPath = ''/var/lib/networkservicemesh/nsm-dev-A'',
                          ReadOnly = False\<rparr>]\<rparr>,
             \<lparr>Mounts = []\<rparr>]\<rparr>"
    by (simp add: devices mixed_request_def exampleEnv_def mkdirExceptDevB_def)
  from res have known: "\<And>i. i \<in> set ?ids \<and> i \<in> dom (nsmSockets deviceBroker) \<Longrightarrow>
              (\<exists>c. nextChan servedRuntime \<le> c \<and> c < nextChan rt' \<and>
                   nsmSockets n' i =
                     Some \<lparr>device = Some \<lparr>ID = i, Health = Healthy\<rparr>,
                           socketPath = pathJoin ?env (pathJoin ?env (SocketBaseDir ?env) (''nsm-'' @ i)) (ServerSock ?env),
                           stopChannel = Some c, allocated = True\<rparr>)"
    by blast
  from res have other: "\<And>i. i \<notin> set ?ids \<or> i \<notin> dom (nsmSockets deviceBroker) \<Longrightarrow>
              nsmSockets n' i = nsmSockets deviceBroker i"
    by blast
  have devA: "\<exists>c. 1 \<le> c \<and> nsmSockets n' ''dev-A'' =
            Some \<lparr>device = Some \<lparr>ID = ''dev-A'', Health = ''Healthy''\<rparr>,
                  socketPath = ''/var/lib/networkservicemesh/nsm-dev-A/nsm.client.sock'',
                  stopChannel = Some c, allocated = True\<rparr>"
    using known [of "''dev-A''"]
    by (simp add: devices ids exampleEnv_def servedRuntime_def Healthy_def) blast
  have devB: "\<exists>c. 1 \<le> c \<and> nsmSockets n' ''dev-B'' =
            Some \<lparr>device = Some \<lparr>ID = ''dev-B'', Health = ''Healthy''\<rparr>,
                  socketPath = ''/var/lib/networkservicemesh/nsm-dev-B/nsm.client.sock'',
                  stopChannel = Some c, allocated = True\<rparr>"
    using known [of "''dev-B''"]
    by (simp add: devices ids exampleEnv_def servedRuntime_def Healthy_def) blast
  have devC: "nsmSockets n' ''dev-C'' = None"
    using other [of "''dev-C''"] by (simp add: devices entries)
  from ret err resp devA devB devC show ?thesis by blast
qed

text \<open>
  Without a server the second round does not return: when the directory of \<open>dev-B\<close>
  cannot be made, the first round stores a descriptor that says allocated and starts no
  server, and the second round of the same batch stays in the send on its channel.
\<close>

lemma Allocate_twice_without_server:
  "Allocate (exampleEnv never always) poolBroker (freshRuntime 0 []) devB_twice_request = Blocked"
  by (simp add: Allocate_def Allocate_id_def stopRendezvous_def Let_def devB_twice_request_def
        poolBroker_def emptyRegistryBroker_def idleSocket_def exampleEnv_def never_def mountFor_def
        socketFor_def freshRuntime_def)

text \<open>
  C8. Allocating the known device \<open>dev-A\<close> of the pool, with every step of the server start
  succeeding, gives the table with the allocated \<open>dev-A\<close> and the runtime in which its
  server waits. Allocating \<open>dev-A\<close> again goes through the rendezvous (channel \<open>0\<close> is
  closed, the first goroutine has returned with the flag cleared in its copy) and
  starts a second server; but the gRPC server of the first allocation is still in
  \<open>serving\<close>, next to the new one on the same socket path: nothing has stopped it. And
  when the stale socket could not be removed at the first allocation, the server
  goroutine returned with the flag cleared in its copy only: the table still says
  allocated, no server waits, and the second allocation of \<open>dev-A\<close> never returns.
\<close>

theorem C8_first_server_keeps_serving:
  "Allocate (exampleEnv always always) poolBroker (freshRuntime 0 []) devA_request =
     Returned (deviceBroker, servedRuntime,
       \<lparr>ContainerResponses =
          [\<lparr>Mounts = [\<lparr>ContainerPath = ''/var/lib/networkservicemesh'',
                        HostPath = ''/var/lib/networkservicemesh/nsm-dev-A'',
                        ReadOnly = False\<rparr>]\<rparr>]\<rparr>,
       None)
   \<and> Allocate (exampleEnv always always) deviceBroker servedRuntime devA_request =
     Returned (deviceBroker\<lparr>nsmSockets := (nsmSockets deviceBroker)(''dev-A'' \<mapsto> devA_socket\<lparr>stopChannel := Some 1\<rparr>)\<rparr>,
       \<lparr>nextChan = 2, closed = [0], started = [''dev-A'', ''dev-A''],
        serving = [(''dev-A'', ''/var/lib/networkservicemesh/nsm-dev-A/nsm.client.sock''),
                   (''dev-A'', ''/var/lib/networkservicemesh/nsm-dev-A/nsm.client.sock'')],
        waiting = [devA_socket\<lparr>stopChannel := Some 1\<rparr>],
        finished = [devA_socket\<lparr>allocated := False\<rparr>]\<rparr>,
       \<lparr>ContainerResponses =
          [\<lparr>Mounts = [\<lparr>ContainerPath = ''/var/lib/networkservicemesh'',
                        HostPath = ''/var/lib/networkservicemesh/nsm-dev-A'',
                        ReadOnly = False\<rparr>]\<rparr>]\<rparr>,
       None)
   \<and> Allocate (exampleEnv always never) poolBroker (freshRuntime 0 []) devA_request =
     Returned (deviceBroker, unservedRuntime,
       \<lparr>ContainerResponses =
          [\<lparr>Mounts = [\<lparr>ContainerPath = ''/var/lib/networkservicemesh'',
                        HostPath = ''/var/lib/networkservicemesh/nsm-dev-A'',
                        ReadOnly = False\<rparr>]\<rparr>]\<rparr>,
       None)
   \<and> map_option allocated (nsmSockets deviceBroker ''dev-A'') = Some True
   \<and> Allocate (exampleEnv always never) deviceBroker unservedRuntime devA_request = Blocked"
proof -
  have first: "Allocate (exampleEnv always always) poolBroker (freshRuntime 0 []) devA_request =
     Returned (deviceBroker, servedRuntime,
       \<lparr>ContainerResponses =
          [\<lparr>Mounts = [\<lparr>ContainerPath = ''/var/lib/networkservicemesh'',
                        HostPath = ''/var/lib/networkservicemesh/nsm-dev-A'',
                        ReadOnly = False\<rparr>]\<rparr>]\<rparr>,
       None)"
    by (simp add: Allocate_def Allocate_id_def startClientServer_def Let_def devA_request_def
          deviceBroker_def poolBroker_def emptyRegistryBroker_def idleSocket_def exampleEnv_def
          always_def mountFor_def socketFor_def freshRuntime_def servedRuntime_def devA_socket_def)
  have second: "Allocate (exampleEnv always always) deviceBroker servedRuntime devA_request =
     Returned (deviceBroker\<lparr>nsmSockets := (nsmSockets deviceBroker)(''dev-A'' \<mapsto> devA_socket\<lparr>stopChannel := Some 1\<rparr>)\<rparr>,
       \<lparr>nextChan = 2, closed = [0], started = [''dev-A'', ''dev-A''],
        serving = [(''dev-A'', ''/var/lib/networkservicemesh/nsm-dev-A/nsm.client.sock''),
                   (''dev-A'', ''/var/lib/networkservicemesh/nsm-dev-A/nsm.client.sock'')],
        waiting = [devA_socket\<lparr>stopChannel := Some 1\<rparr>],
        finished = [devA_socket\<lparr>allocated := False\<rparr>]\<rparr>,
       \<lparr>ContainerResponses =
          [\<lparr>Mounts = [\<lparr>ContainerPath = ''/var/lib/networkservicemesh'',
                        HostPath = ''/var/lib/networkservicemesh/nsm-dev-A'',
                        ReadOnly = False\<rparr>]\<rparr>]\<rparr>,
       None)"
    by (simp add: Allocate_def Allocate_id_def startClientServer_def stopRendezvous_def Let_def
          devA_request_def deviceBroker_def poolBroker_def emptyRegistryBroker_def idleSocket_def
          exampleEnv_def always_def mountFor_def socketFor_def servedRuntime_def devA_socket_def)
  have failed: "Allocate (exampleEnv always never) poolBroker (freshRuntime 0 []) devA_request =
     Returned (deviceBroker, unservedRuntime,
       \<lparr>ContainerResponses =
          [\<lparr>Mounts = [\<lparr>ContainerPath = ''/var/lib/networkservicemesh'',
                        HostPath = ''/var/lib/networkservicemesh/nsm-dev-A'',
                        ReadOnly = False\<rparr>]\<rparr>]\<rparr>,
       None)"
    by (simp add: Allocate_def Allocate_id_def startClientServer_def Let_def devA_request_def
          deviceBroker_def poolBroker_def emptyRegistryBroker_def idleSocket_def exampleEnv_def
          always_def never_def mountFor_def socketFor_def freshRuntime_def unservedRuntime_def
          devA_socket_def)
  have flag: "map_option allocated (nsmSockets deviceBroker ''dev-A'') = Some True"
    by (simp add: deviceBroker_def devA_socket_def)
  have blocked: "Allocate (exampleEnv always never) deviceBroker unservedRuntime devA_request = Blocked"
    by (simp add: Allocate_def Allocate_id_def stopRendezvous_def Let_def devA_request_def
          deviceBroker_def poolBroker_def unservedRuntime_def devA_socket_def)
  from first second failed flag blocked show ?thesis by blast
qed

subsection \<open>ListAndWatch\<close>

text \<open>The loop has no result, and it may be unrolled any number of rounds.\<close>

lemma ListAndWatch_no_result: "ListAndWatch env st = Some y \<Longrightarrow> False"
  using ListAndWatch.raw_induct [of "\<lambda>_ _ _. False" env st y] by blast

lemma ListAndWatch_None: "ListAndWatch env st = None"
  using ListAndWatch_no_result [of env st] by (cases "ListAndWatch env st") auto

lemma ListAndWatch_unfold: "ListAndWatch env st = ListAndWatch env ((ListAndWatch_iteration env ^^ j) st)"
proof (induction j)
  case 0
  show ?case by simp
next
  case (Suc j)
  have "ListAndWatch env ((ListAndWatch_iteration env ^^ j) st)
          = ListAndWatch env (ListAndWatch_iteration env ((ListAndWatch_iteration env ^^ j) st))"
    by (rule ListAndWatch.simps)
  with Suc show ?case by simp
qed

text \<open>Every round advances the round number by one and adds exactly one send to the
  trace, whether the send fails or not.\<close>

lemma ListAndWatch_iteration_round: "fst (ListAndWatch_iteration env (k, trace)) = Suc k"
  by (simp add: ListAndWatch_iteration_def Let_def split: option.split)

lemma ListAndWatch_iteration_sends:
  "length (filter (\<lambda>e. case e of Send _ _ \<Rightarrow> True | _ \<Rightarrow> False) (snd (ListAndWatch_iteration env (k, trace))))
     = Suc (length (filter (\<lambda>e. case e of Send _ _ \<Rightarrow> True | _ \<Rightarrow> False) trace))"
  by (simp add: ListAndWatch_iteration_def Let_def split: option.split)

lemma ListAndWatch_rounds:
  "fst ((ListAndWatch_iteration env ^^ j) (k, trace)) = k + j
   \<and> length (filter (\<lambda>e. case e of Send _ _ \<Rightarrow> True | _ \<Rightarrow> False) (snd ((ListAndWatch_iteration env ^^ j) (k, trace))))
       = length (filter (\<lambda>e. case e of Send _ _ \<Rightarrow> True | _ \<Rightarrow> False) trace) + j"
proof (induction j)
  case 0
  show ?case by simp
next
  case (Suc j)
  obtain k' trace' where st: "(ListAndWatch_iteration env ^^ j) (k, trace) = (k', trace')"
    by (cases "(ListAndWatch_iteration env ^^ j) (k, trace)") auto
  with Suc show ?case
    using ListAndWatch_iteration_round [of env k' trace'] ListAndWatch_iteration_sends [of env k' trace']
    by simp
qed

text \<open>
  C9, as stated, fails: a failed send does not end the loop. On a stream where every
  send fails with \<open>EOF\<close> the call does not return, and after the failed first send the
  loop logs, sleeps and sends again.
\<close>

theorem C9_counterexample:
  "sendError brokenStream 0 \<lparr>Devices = [Some \<lparr>ID = ''dev-B'', Health = Healthy\<rparr>, Some \<lparr>ID = ''dev-A'', Health = Healthy\<rparr>]\<rparr> = Some ''EOF''
   \<and> ListAndWatch brokenStream (0, []) = None
   \<and> (ListAndWatch_iteration brokenStream ^^ 2) (0, []) =
       (2, [Send \<lparr>Devices = [Some \<lparr>ID = ''dev-B'', Health = Healthy\<rparr>, Some \<lparr>ID = ''dev-A'', Health = Healthy\<rparr>]\<rparr> (Some ''EOF''),
            Errorf (''Failed to send response to kubelet: EOF'' @ [CHR 0x0A]), Sleep 5,
            Send \<lparr>Devices = [Some \<lparr>ID = ''dev-B'', Health = Healthy\<rparr>, Some \<lparr>ID = ''dev-A'', Health = Healthy\<rparr>]\<rparr> (Some ''EOF''),
            Errorf (''Failed to send response to kubelet: EOF'' @ [CHR 0x0A]), Sleep 5])"
  by (simp add: ListAndWatch_None numeral_2_eq_2 ListAndWatch_iteration_def brokenStream_def
        rangeValues_def List.map_filter_def deviceBroker_def poolBroker_def devA_socket_def
        idleSocket_def)

text \<open>
  C9, amended. \<open>ListAndWatch\<close> is a polling loop that never returns, whatever the sends
  do; it can be unrolled any number \<open>j\<close> of rounds, and \<open>j\<close> rounds make \<open>j\<close> sends; each
  round sends the devices of the device table as it is then, logs the error when the
  send failed, sleeps five seconds and goes on with the next round.
\<close>

theorem C9_ListAndWatch_never_returns:
  "ListAndWatch env st = None
   \<and> ListAndWatch env st = ListAndWatch env ((ListAndWatch_iteration env ^^ j) st)
   \<and> fst ((ListAndWatch_iteration env ^^ j) (k, trace)) = k + j
   \<and> length (filter (\<lambda>e. case e of Send _ _ \<Rightarrow> True | _ \<Rightarrow> False)
                (snd ((ListAndWatch_iteration env ^^ j) (k, trace))))
       = length (filter (\<lambda>e. case e of Send _ _ \<Rightarrow> True | _ \<Rightarrow> False) trace) + j
   \<and> ListAndWatch_iteration env (k, trace) =
       (Suc k,
        trace @ [Send \<lparr>Devices = map device (List.map_filter (nsmSockets (brokerAt env k)) (rangeOrder env k))\<rparr>
                   (sendError env k \<lparr>Devices = map device (List.map_filter (nsmSockets (brokerAt env k)) (rangeOrder env k))\<rparr>)]
              @ (case sendError env k \<lparr>Devices = map device (List.map_filter (nsmSockets (brokerAt env k)) (rangeOrder env k))\<rparr> of
                   Some err \<Rightarrow> [Errorf (''Failed to send response to kubelet: '' @ err @ [CHR 0x0A])]
                 | None \<Rightarrow> [])
              @ [Sleep 5])"
proof -
  have "ListAndWatch_iteration env (k, trace) =
       (Suc k,
        trace @ [Send \<lparr>Devices = map device (List.map_filter (nsmSockets (brokerAt env k)) (rangeOrder env k))\<rparr>
                   (sendError env k \<lparr>Devices = map device (List.map_filter (nsmSockets (brokerAt env k)) (rangeOrder env k))\<rparr>)]
              @ (case sendError env k \<lparr>Devices = map device (List.map_filter (nsmSockets (brokerAt env k)) (rangeOrder env k))\<rparr> of
                   Some err \<Rightarrow> [Errorf (''Failed to send response to kubelet: '' @ err @ [CHR 0x0A])]
                 | None \<Rightarrow> [])
              @ [Sleep 5])"
    by (simp add: ListAndWatch_iteration_def rangeValues_def Let_def split: option.split)
  with ListAndWatch_None [of env st] ListAndWatch_unfold [of env st j] ListAndWatch_rounds [where env = env and j = j and k = k and trace = trace]
  show ?thesis by simp
qed

end
